theory Spec2Isabelle
  imports Complex_Main "HOL-Library.Sublist" "HOL-Library.Log_Nat"
begin

section \<open>Python values, exceptions and effects\<close>

text \<open>
  The values that flow through \<^verbatim>\<open>app.py\<close> are JSON-shaped Python objects: the bodies
  returned by \<^verbatim>\<open>response.json()\<close>, the dictionaries the tool functions build and the
  texts returned by the language model. A dictionary is an association list in insertion
  order, looked up with \<open>map_of\<close>. A float is given by the exact rational value of its
  double; the arithmetic on doubles is defined with the tool functions below.
\<close>

datatype pyval =
    PNone
  | PBool bool
  | PInt int
  | PFloat rat
  | PStr string
  | PList "pyval list"
  | PDict "(string \<times> pyval) list"

text \<open>
  Exceptions derived from Python's \<^verbatim>\<open>Exception\<close>. \<open>LibraryError\<close> stands for whatever
  a client library raises (a transport error of \<^verbatim>\<open>requests\<close>, a JSON decoding error, an
  API error of the model client); its argument is \<^verbatim>\<open>str(e)\<close>.
\<close>

datatype exn =
    ValueError string
  | KeyError string
  | TypeError string
  | AttributeError string
  | IndexError string
  | LibraryError string

definition quote :: "string \<Rightarrow> string" where
  "quote s = [CHR 0x27] @ s @ [CHR 0x27]"

fun str_exn :: "exn \<Rightarrow> string" where
  "str_exn (ValueError m) = m"
| "str_exn (KeyError k) = quote k"
| "str_exn (TypeError m) = m"
| "str_exn (AttributeError m) = m"
| "str_exn (IndexError m) = m"
| "str_exn (LibraryError m) = m"

fun type_name :: "pyval \<Rightarrow> string" where
  "type_name PNone = ''NoneType''"
| "type_name (PBool _) = ''bool''"
| "type_name (PInt _) = ''int''"
| "type_name (PFloat _) = ''float''"
| "type_name (PStr _) = ''str''"
| "type_name (PList _) = ''list''"
| "type_name (PDict _) = ''dict''"

text \<open>Computations that may raise: \<open>Inl\<close> is the exception.\<close>

definition bind_exn :: "exn + 'a \<Rightarrow> ('a \<Rightarrow> exn + 'b) \<Rightarrow> exn + 'b" where
  "bind_exn m f = (case m of Inl e \<Rightarrow> Inl e | Inr x \<Rightarrow> f x)"

fun mapM_exn :: "('a \<Rightarrow> exn + 'b) \<Rightarrow> 'a list \<Rightarrow> exn + 'b list" where
  "mapM_exn f [] = Inr []"
| "mapM_exn f (x # xs) =
     bind_exn (f x) (\<lambda>y. bind_exn (mapM_exn f xs) (\<lambda>ys. Inr (y # ys)))"

text \<open>\<^verbatim>\<open>obj[key]\<close> with a string key.\<close>

fun py_getitem :: "pyval \<Rightarrow> string \<Rightarrow> exn + pyval" where
  "py_getitem (PDict kvs) k =
     (case map_of kvs k of None \<Rightarrow> Inl (KeyError k) | Some v \<Rightarrow> Inr v)"
| "py_getitem (PList xs) k =
     Inl (TypeError ''list indices must be integers or slices, not str'')"
| "py_getitem (PStr s) k =
     Inl (TypeError (''string indices must be integers, not '' @ quote ''str''))"
| "py_getitem v k =
     Inl (TypeError (quote (type_name v) @ '' object is not subscriptable''))"

text \<open>\<^verbatim>\<open>obj.get(key, default)\<close>: only a dictionary has the method.\<close>

fun py_get :: "pyval \<Rightarrow> string \<Rightarrow> pyval \<Rightarrow> exn + pyval" where
  "py_get (PDict kvs) k d = (case map_of kvs k of None \<Rightarrow> Inr d | Some v \<Rightarrow> Inr v)"
| "py_get v k d =
     Inl (AttributeError (quote (type_name v) @ '' object has no attribute '' @ quote ''get''))"

text \<open>\<^verbatim>\<open>for x in obj\<close>: the elements of a list, the keys of a dictionary, the characters of a string.\<close>

fun py_iter :: "pyval \<Rightarrow> exn + pyval list" where
  "py_iter (PList xs) = Inr xs"
| "py_iter (PDict kvs) = Inr (map (\<lambda>kv. PStr (fst kv)) kvs)"
| "py_iter (PStr s) = Inr (map (\<lambda>c. PStr [c]) s)"
| "py_iter v = Inl (TypeError (quote (type_name v) @ '' object is not iterable''))"

text \<open>\<^verbatim>\<open>str(n)\<close> for an integer.\<close>

definition digit_char :: "nat \<Rightarrow> char" where
  "digit_char d = ''0123456789'' ! d"

fun str_nat :: "nat \<Rightarrow> string" where
  "str_nat n = (if n < 10 then [digit_char n] else str_nat (n div 10) @ [digit_char (n mod 10)])"

declare str_nat.simps [simp del]

definition str_int :: "int \<Rightarrow> string" where
  "str_int i = (if i < 0 then CHR ''-'' # str_nat (nat (- i)) else str_nat (nat i))"

text \<open>\<^verbatim>\<open>s.split(sep)\<close> for a one-character separator: never empty, one more part than separators.\<close>

fun split_on :: "char \<Rightarrow> string \<Rightarrow> string list" where
  "split_on sep [] = [[]]"
| "split_on sep (c # cs) =
     (if c = sep then [] # split_on sep cs
      else (case split_on sep cs of p # ps \<Rightarrow> (c # p) # ps | [] \<Rightarrow> [[c]]))"

text \<open>\<^verbatim>\<open>a, b = parts\<close>: unpacking into exactly two targets.\<close>

fun unpack2 :: "string list \<Rightarrow> exn + string \<times> string" where
  "unpack2 [a, b] = Inr (a, b)"
| "unpack2 [] = Inl (ValueError ''not enough values to unpack (expected 2, got 0)'')"
| "unpack2 [a] = Inl (ValueError ''not enough values to unpack (expected 2, got 1)'')"
| "unpack2 (a # b # c # ps) = Inl (ValueError ''too many values to unpack (expected 2)'')"

subsection \<open>The outside world\<close>

text \<open>
  Every call that leaves the process is recorded in a trace, so that "no network call was
  made" is a statement about the program. The answers of the outside world are the
  fields of \<open>env\<close>: what \<^verbatim>\<open>requests.get\<close> returns or raises, what the chat-completion
  endpoint returns or raises, the environment variables, the formatted current date at
  each of the two prompts, \<^verbatim>\<open>json.dumps(_, indent=2)\<close>, \<^verbatim>\<open>str\<close> on values other than
  strings, and the draws of the \<^verbatim>\<open>random\<close> module.
\<close>

datatype response = Response (status_code: int) (json: "exn + pyval")

record chat_request =
  model :: string
  messages :: "(string \<times> string) list"
  temperature :: rat

text \<open>A completion is the list of its choices, each given by its \<^verbatim>\<open>message.content\<close>.\<close>

datatype completion = Completion (choices: "pyval list")

datatype call =
    HttpGet string "(string \<times> pyval) list"
  | ChatCompletion chat_request

text \<open>
  The primitive draws behind the five calls to \<^verbatim>\<open>random\<close> in \<^verbatim>\<open>analyze_forex_trends\<close>,
  in the order the dictionary literal evaluates them. In CPython
  \<^verbatim>\<open>choice(seq)\<close> is \<^verbatim>\<open>seq[_randbelow(len(seq))]\<close>,
  \<^verbatim>\<open>randint(a, b)\<close> is \<^verbatim>\<open>a + _randbelow(b - a + 1)\<close> and
  \<^verbatim>\<open>uniform(a, b)\<close> is \<^verbatim>\<open>a + (b - a) * random()\<close>. So \<open>trend_draw\<close> and
  \<open>sentiment_draw\<close> are the results of \<^verbatim>\<open>_randbelow(3)\<close>, \<open>strength_draw\<close> of
  \<^verbatim>\<open>_randbelow(6)\<close>, \<open>volume_draw\<close> of \<^verbatim>\<open>_randbelow(451)\<close> and
  \<open>volatility_draw\<close> of \<^verbatim>\<open>random()\<close>, a multiple of \<open>2 ^ - 53\<close>.
\<close>

record draws =
  trend_draw :: nat
  strength_draw :: nat
  sentiment_draw :: nat
  volatility_draw :: rat
  volume_draw :: nat

text \<open>
  The library's contract: \<^verbatim>\<open>_randbelow(n)\<close> is below \<open>n\<close> (here the length of the
  three-element lists and the widths \<open>b - a + 1\<close> of the two \<^verbatim>\<open>randint\<close> calls), and
  \<^verbatim>\<open>random()\<close> is in \<open>[0, 1)\<close>. (It is a double \<open>k / 2 ^ 53\<close>; the contract below
  admits every rational of the interval, so it covers all draws.)
\<close>

definition draws_ok :: "draws \<Rightarrow> bool" where
  "draws_ok d \<longleftrightarrow>
     trend_draw d < 3 \<and>
     int (strength_draw d) < 8 - 3 + 1 \<and>
     sentiment_draw d < 3 \<and>
     0 \<le> volatility_draw d \<and> volatility_draw d < 1 \<and>
     int (volume_draw d) < 500 - 50 + 1"

record env =
  getenv :: "string \<Rightarrow> string option"
  http :: "string \<Rightarrow> (string \<times> pyval) list \<Rightarrow> exn + response"
  chat :: "chat_request \<Rightarrow> exn + completion"
  date_at_analysis :: string
  date_at_report :: string
  json_dumps :: "pyval \<Rightarrow> string"
  py_repr :: "pyval \<Rightarrow> string"
  rnd :: draws

type_synonym 'a io = "call list \<times> (exn + 'a)"

definition return_io :: "'a \<Rightarrow> 'a io" where
  "return_io x = ([], Inr x)"

definition lift_io :: "exn + 'a \<Rightarrow> 'a io" where
  "lift_io r = ([], r)"

definition bind_io :: "'a io \<Rightarrow> ('a \<Rightarrow> 'b io) \<Rightarrow> 'b io" where
  "bind_io m f =
     (case m of
        (t, Inl e) \<Rightarrow> (t, Inl e)
      | (t, Inr x) \<Rightarrow> (case f x of (t', r) \<Rightarrow> (t @ t', r)))"

text \<open>\<^verbatim>\<open>try: body except Exception as e: handler\<close>.\<close>

definition try_except :: "'a io \<Rightarrow> (exn \<Rightarrow> 'a io) \<Rightarrow> 'a io" where
  "try_except body handler =
     (case body of
        (t, Inl e) \<Rightarrow> (case handler e of (t', r) \<Rightarrow> (t @ t', r))
      | (t, Inr x) \<Rightarrow> (t, Inr x))"

definition os_getenv :: "env \<Rightarrow> string \<Rightarrow> string \<Rightarrow> string" where
  "os_getenv E k d = (case getenv E k of None \<Rightarrow> d | Some v \<Rightarrow> v)"

definition requests_get :: "env \<Rightarrow> string \<Rightarrow> (string \<times> pyval) list \<Rightarrow> response io" where
  "requests_get E url params = ([HttpGet url params], http E url params)"

definition chat_completions_create :: "env \<Rightarrow> chat_request \<Rightarrow> completion io" where
  "chat_completions_create E req = ([ChatCompletion req], chat E req)"

section \<open>Tool functions\<close>

definition error_record :: "string \<Rightarrow> pyval" where
  "error_record msg = PDict [(''status'', PStr ''error''), (''message'', PStr msg)]"

definition rate_url :: "env \<Rightarrow> string \<Rightarrow> string \<Rightarrow> string" where
  "rate_url E base_currency target_currency =
     (let api_key = os_getenv E ''EXCHANGE_RATE_API_KEY'' ''''
      in ''https://v6.exchangerate-api.com/v6/'' @ api_key @ ''/pair/''
           @ base_currency @ ''/'' @ target_currency)"

definition get_exchange_rate :: "env \<Rightarrow> string \<Rightarrow> string \<Rightarrow> pyval io" where
  "get_exchange_rate E base_currency target_currency =
     (let url = rate_url E base_currency target_currency
      in try_except
           (bind_io (requests_get E url []) (\<lambda>response.
              if status_code response = 200 then
                bind_io (lift_io (json response)) (\<lambda>data.
                bind_io (lift_io (py_getitem data ''conversion_rate'')) (\<lambda>rate.
                bind_io (lift_io (py_getitem data ''time_last_update_utc'')) (\<lambda>last_updated.
                bind_io (lift_io (py_getitem data ''time_next_update_utc'')) (\<lambda>next_update.
                  return_io (PDict
                    [(''base_currency'', PStr base_currency),
                     (''target_currency'', PStr target_currency),
                     (''rate'', rate),
                     (''last_updated'', last_updated),
                     (''next_update'', next_update),
                     (''status'', PStr ''success'')])))))
              else
                return_io (error_record
                  (''API returned status code '' @ str_int (status_code response)))))
           (\<lambda>e. return_io (error_record (str_exn e))))"

definition article_entry :: "pyval \<Rightarrow> exn + pyval" where
  "article_entry article =
     bind_exn (py_get article ''title'' PNone) (\<lambda>title.
     bind_exn (py_get article ''source'' (PDict [])) (\<lambda>source.
     bind_exn (py_get source ''name'' PNone) (\<lambda>name.
     bind_exn (py_get article ''publishedAt'' PNone) (\<lambda>published_at.
     bind_exn (py_get article ''url'' PNone) (\<lambda>url.
     bind_exn (py_get article ''description'' PNone) (\<lambda>description.
       Inr (PDict
         [(''title'', title),
          (''source'', name),
          (''published_at'', published_at),
          (''url'', url),
          (''description'', description)])))))))"

definition news_url :: string where
  "news_url = ''https://newsapi.org/v2/everything''"

definition news_params :: "env \<Rightarrow> string \<Rightarrow> string \<Rightarrow> (string \<times> pyval) list" where
  "news_params E base target =
     (let api_key = os_getenv E ''NEWS_API_KEY'' '''';
          query = ''forex '' @ base @ '' '' @ target @ '' exchange rate''
      in [(''q'', PStr query),
          (''sortBy'', PStr ''publishedAt''),
          (''language'', PStr ''en''),
          (''pageSize'', PInt 3),
          (''apiKey'', PStr api_key)])"

definition get_forex_news :: "env \<Rightarrow> string \<Rightarrow> pyval io" where
  "get_forex_news E currency_pair =
     bind_io (lift_io (unpack2 (split_on CHR ''/'' currency_pair))) (\<lambda>(base, target).
       let url = news_url;
           params = news_params E base target
       in try_except
            (bind_io (requests_get E url params) (\<lambda>response.
               if status_code response = 200 then
                 bind_io (lift_io (json response)) (\<lambda>data.
                 bind_io (lift_io (py_get data ''articles'' (PList []))) (\<lambda>articles.
                 bind_io (lift_io (py_iter articles)) (\<lambda>items.
                 bind_io (lift_io (mapM_exn article_entry items)) (\<lambda>entries.
                   return_io (PList entries)))))
               else
                 return_io (error_record
                   (''API returned status code '' @ str_int (status_code response)))))
            (\<lambda>e. return_io (error_record (str_exn e))))"

subsection \<open>Arithmetic on doubles\<close>

text \<open>
  Python's \<^verbatim>\<open>float\<close> is an IEEE 754 double. A double is represented by its exact
  rational value, and every operation rounds the exact result to the nearest double,
  ties to the even significand. \<open>binade x\<close> is the exponent \<open>e\<close> with
  \<open>2 ^ e \<le> x < 2 ^ (e + 1)\<close>; the doubles of that binade are the multiples of
  \<open>2 ^ (e - 52)\<close>, and below \<open>2 ^ - 1022\<close> (the subnormal range) the multiples of
  \<open>2 ^ - 1074\<close>. Overflow to infinity starts near \<open>2 ^ 1024\<close>; no value of this
  program exceeds 500.
\<close>

definition round_half_even :: "rat \<Rightarrow> int" where
  "round_half_even y =
     (let f = \<lfloor>y\<rfloor>; d = y - of_int f
      in if d < 1 / 2 then f else if 1 / 2 < d then f + 1 else if even f then f else f + 1)"

definition binade :: "rat \<Rightarrow> int" where
  "binade x =
     (if 1 \<le> x then int (floorlog 2 (nat \<lfloor>x\<rfloor>)) - 1
      else - int (floorlog 2 (nat (\<lceil>1 / x\<rceil> - 1))))"

definition to_double :: "rat \<Rightarrow> rat" where
  "to_double x =
     (if x = 0 then 0
      else let q = max (binade \<bar>x\<bar>) (- 1022) - 52
           in of_int (round_half_even (x / 2 powi q)) * 2 powi q)"

definition float_add :: "rat \<Rightarrow> rat \<Rightarrow> rat" where
  "float_add x y = to_double (x + y)"

definition float_sub :: "rat \<Rightarrow> rat \<Rightarrow> rat" where
  "float_sub x y = to_double (x - y)"

definition float_mul :: "rat \<Rightarrow> rat \<Rightarrow> rat" where
  "float_mul x y = to_double (x * y)"

text \<open>
  \<^verbatim>\<open>round(x, ndigits)\<close> on a float: the exact value of \<open>x\<close> is rounded to \<open>ndigits\<close>
  decimal places, ties to even, and the decimal result is converted to the nearest double
  (CPython rounds through a correctly rounded decimal string).
\<close>

definition py_round :: "rat \<Rightarrow> nat \<Rightarrow> rat" where
  "py_round x ndigits = to_double (of_int (round_half_even (x * 10 ^ ndigits)) / 10 ^ ndigits)"

definition random_choice :: "string list \<Rightarrow> nat \<Rightarrow> exn + string" where
  "random_choice seq i =
     (if i < length seq then Inr (seq ! i) else Inl (IndexError ''list index out of range''))"

definition random_randint :: "int \<Rightarrow> int \<Rightarrow> nat \<Rightarrow> int" where
  "random_randint a b r = a + int r"

definition random_uniform :: "rat \<Rightarrow> rat \<Rightarrow> rat \<Rightarrow> rat" where
  "random_uniform a b r = float_add a (float_mul (float_sub b a) r)"

definition analyze_forex_trends :: "env \<Rightarrow> string \<Rightarrow> exn + pyval" where
  "analyze_forex_trends E currency_pair =
     bind_exn (unpack2 (split_on CHR ''/'' currency_pair)) (\<lambda>(base, target).
       let trend_directions = [''upward'', ''downward'', ''sideways''];
           sentiment_options = [''bullish'', ''bearish'', ''neutral'']
       in bind_exn (random_choice trend_directions (trend_draw (rnd E))) (\<lambda>current_trend.
          bind_exn (random_choice sentiment_options (sentiment_draw (rnd E))) (\<lambda>public_sentiment.
            Inr (PDict
              [(''base_currency'', PStr base),
               (''target_currency'', PStr target),
               (''current_trend'', PStr current_trend),
               (''trend_strength'', PInt (random_randint 3 8 (strength_draw (rnd E)))),
               (''public_sentiment'', PStr public_sentiment),
               (''volatility'',
                  PFloat (py_round
                    (random_uniform (to_double (1 / 10)) (to_double 5) (volatility_draw (rnd E)))
                    2)),
               (''trading_volume'',
                  PStr (str_int (random_randint 50 500 (volume_draw (rnd E))) @ ''M''))]))))"

section \<open>The pipeline state and its nodes\<close>

text \<open>
  \<^verbatim>\<open>ForexAnalysisState\<close> is a \<^verbatim>\<open>TypedDict\<close>; a key that is not yet in the dictionary is
  \<open>None\<close> here, and reading it raises \<^verbatim>\<open>KeyError\<close>. A node returns a dictionary holding
  only the keys it sets, which the graph merges into the state.
\<close>

record ForexAnalysisState =
  currency_pair :: "string option"
  exchange_rate_data :: "pyval option"
  news_data :: "pyval option"
  trend_data :: "pyval option"
  data_analysis :: "pyval option"
  final_report :: "pyval option"

definition empty_state :: ForexAnalysisState where
  "empty_state =
     \<lparr>currency_pair = None, exchange_rate_data = None, news_data = None,
      trend_data = None, data_analysis = None, final_report = None\<rparr>"

definition state_getitem :: "'a option \<Rightarrow> string \<Rightarrow> exn + 'a" where
  "state_getitem field k = (case field of None \<Rightarrow> Inl (KeyError k) | Some v \<Rightarrow> Inr v)"

definition override :: "'a option \<Rightarrow> 'a option \<Rightarrow> 'a option" where
  "override old new = (case new of None \<Rightarrow> old | Some v \<Rightarrow> Some v)"

definition apply_update :: "ForexAnalysisState \<Rightarrow> ForexAnalysisState \<Rightarrow> ForexAnalysisState" where
  "apply_update s u =
     \<lparr>currency_pair = override (currency_pair s) (currency_pair u),
      exchange_rate_data = override (exchange_rate_data s) (exchange_rate_data u),
      news_data = override (news_data s) (news_data u),
      trend_data = override (trend_data s) (trend_data u),
      data_analysis = override (data_analysis s) (data_analysis u),
      final_report = override (final_report s) (final_report u)\<rparr>"

text \<open>The keys present in a state, in the order the \<^verbatim>\<open>TypedDict\<close> declares them.\<close>

definition present :: "'a option \<Rightarrow> string \<Rightarrow> string list" where
  "present field k = (case field of None \<Rightarrow> [] | Some _ \<Rightarrow> [k])"

definition populated :: "ForexAnalysisState \<Rightarrow> string list" where
  "populated s =
     present (currency_pair s) ''currency_pair'' @
     present (exchange_rate_data s) ''exchange_rate_data'' @
     present (news_data s) ''news_data'' @
     present (trend_data s) ''trend_data'' @
     present (data_analysis s) ''data_analysis'' @
     present (final_report s) ''final_report''"

definition collect_exchange_rate :: "env \<Rightarrow> ForexAnalysisState \<Rightarrow> ForexAnalysisState io" where
  "collect_exchange_rate E state =
     bind_io (lift_io (state_getitem (currency_pair state) ''currency_pair'')) (\<lambda>pair.
     bind_io (lift_io (unpack2 (split_on CHR ''/'' pair))) (\<lambda>(base_currency, target_currency).
     bind_io (get_exchange_rate E base_currency target_currency) (\<lambda>data.
       return_io (empty_state\<lparr>exchange_rate_data := Some data\<rparr>))))"

definition collect_news :: "env \<Rightarrow> ForexAnalysisState \<Rightarrow> ForexAnalysisState io" where
  "collect_news E state =
     bind_io (lift_io (state_getitem (currency_pair state) ''currency_pair'')) (\<lambda>pair.
     bind_io (get_forex_news E pair) (\<lambda>data.
       return_io (empty_state\<lparr>news_data := Some data\<rparr>)))"

definition collect_trends :: "env \<Rightarrow> ForexAnalysisState \<Rightarrow> ForexAnalysisState io" where
  "collect_trends E state =
     bind_io (lift_io (state_getitem (currency_pair state) ''currency_pair'')) (\<lambda>pair.
     bind_io (lift_io (analyze_forex_trends E pair)) (\<lambda>data.
       return_io (empty_state\<lparr>trend_data := Some data\<rparr>)))"

text \<open>What an f-string writes for \<^verbatim>\<open>{value}\<close>.\<close>

definition format_value :: "env \<Rightarrow> pyval \<Rightarrow> string" where
  "format_value E v =
     (case v of
        PStr s \<Rightarrow> s
      | PNone \<Rightarrow> ''None''
      | PBool b \<Rightarrow> (if b then ''True'' else ''False'')
      | PInt i \<Rightarrow> str_int i
      | _ \<Rightarrow> py_repr E v)"

text \<open>
  The two prompt templates are triple-quoted f-strings: a newline, then every line
  indented by four spaces, then four spaces before the closing quotes.
\<close>

definition template :: "string list \<Rightarrow> string" where
  "template ls = CHR 0x0A # concat (map (\<lambda>l. ''    '' @ l @ [CHR 0x0A]) ls) @ ''    ''"

definition analysis_prompt :: "string \<Rightarrow> string \<Rightarrow> string \<Rightarrow> string \<Rightarrow> string \<Rightarrow> string" where
  "analysis_prompt pair current_date rate news trends = template
     [''You are a Forex Data Analyst specializing in analyzing currency pairs.'',
      '''',
      ''Please analyze the following data for the currency pair '' @ pair
         @ '' as of '' @ current_date @ '':'',
      '''',
      ''1. Exchange Rate Data:'',
      rate,
      '''',
      ''2. Recent News:'',
      news,
      '''',
      ''3. Market Trends:'',
      trends,
      '''',
      ''Provide a detailed analysis including:'',
      ''- Significance of the current rate'',
      ''- Impact of recent news on the currency pair'',
      ''- Analysis of current market trends and sentiment'',
      ''- Factors that might influence short-term movement'',
      '''',
      ''Keep your analysis factual, insightful and focused on the data provided.'']"

definition report_prompt ::
  "string \<Rightarrow> string \<Rightarrow> string \<Rightarrow> string \<Rightarrow> string \<Rightarrow> string \<Rightarrow> string" where
  "report_prompt pair current_date analysis rate news trends = template
     [''You are a Forex Report Generator who creates clear, concise reports that are easy to understand.'',
      '''',
      ''Using the following analysis and data for the currency pair '' @ pair
         @ '' as of '' @ current_date @ '', '',
      ''create a comprehensive but easy-to-read report:'',
      '''',
      ''## DATA ANALYSIS:'',
      analysis,
      '''',
      ''## EXCHANGE RATE:'',
      rate,
      '''',
      ''## NEWS:'',
      news,
      '''',
      ''## TRENDS:'',
      trends,
      '''',
      ''Your report should include:'',
      ''1. A clear title and introduction'',
      ''2. Current exchange rate with time of update'',
      ''3. Summary of key news (as bullet points)'',
      ''4. Analysis of current trends and sentiment'',
      ''5. Short-term prediction (1 week outlook)'',
      ''6. Conclusion with key takeaways'',
      '''',
      ''Format your report with Markdown headings, bullet points, and clear sections.'',
      ''The report should be professional but accessible to non-experts.'']"

text \<open>\<^verbatim>\<open>response.choices[0].message.content\<close>.\<close>

definition first_content :: "completion \<Rightarrow> exn + pyval" where
  "first_content r =
     (case choices r of [] \<Rightarrow> Inl (IndexError ''list index out of range'') | c # _ \<Rightarrow> Inr c)"

definition analysis_request :: "string \<Rightarrow> chat_request" where
  "analysis_request prompt =
     \<lparr>model = ''llama3-70b-8192'',
      messages = [(''system'', ''You are an expert Forex Data Analyst.''), (''user'', prompt)],
      temperature = to_double (3 / 10)\<rparr>"

definition report_request :: "string \<Rightarrow> chat_request" where
  "report_request prompt =
     \<lparr>model = ''llama3-70b-8192'',
      messages = [(''system'', ''You are an expert Forex Report Generator.''), (''user'', prompt)],
      temperature = to_double (2 / 10)\<rparr>"

definition analyze_data :: "env \<Rightarrow> ForexAnalysisState \<Rightarrow> ForexAnalysisState io" where
  "analyze_data E state =
     (let current_date = date_at_analysis E in
      bind_io (lift_io (state_getitem (currency_pair state) ''currency_pair'')) (\<lambda>pair.
      bind_io (lift_io (state_getitem (exchange_rate_data state) ''exchange_rate_data'')) (\<lambda>rate.
      bind_io (lift_io (state_getitem (news_data state) ''news_data'')) (\<lambda>news.
      bind_io (lift_io (state_getitem (trend_data state) ''trend_data'')) (\<lambda>trends.
      bind_io (chat_completions_create E (analysis_request
                 (analysis_prompt pair current_date
                    (json_dumps E rate) (json_dumps E news) (json_dumps E trends)))) (\<lambda>response.
      bind_io (lift_io (first_content response)) (\<lambda>analysis.
        return_io (empty_state\<lparr>data_analysis := Some analysis\<rparr>))))))))"

definition generate_report :: "env \<Rightarrow> ForexAnalysisState \<Rightarrow> ForexAnalysisState io" where
  "generate_report E state =
     (let current_date = date_at_report E in
      bind_io (lift_io (state_getitem (currency_pair state) ''currency_pair'')) (\<lambda>pair.
      bind_io (lift_io (state_getitem (data_analysis state) ''data_analysis'')) (\<lambda>analysis.
      bind_io (lift_io (state_getitem (exchange_rate_data state) ''exchange_rate_data'')) (\<lambda>rate.
      bind_io (lift_io (state_getitem (news_data state) ''news_data'')) (\<lambda>news.
      bind_io (lift_io (state_getitem (trend_data state) ''trend_data'')) (\<lambda>trends.
      bind_io (chat_completions_create E (report_request
                 (report_prompt pair current_date (format_value E analysis)
                    (json_dumps E rate) (json_dumps E news) (json_dumps E trends)))) (\<lambda>response.
      bind_io (lift_io (first_content response)) (\<lambda>report.
        return_io (empty_state\<lparr>final_report := Some report\<rparr>)))))))))"

section \<open>The graph\<close>

text \<open>
  \<^verbatim>\<open>ForexAnalysisGraph.__init__\<close> wires a linear graph: the entry point is
  \<^verbatim>\<open>collect_exchange_rate\<close> and the edges lead through \<^verbatim>\<open>collect_news\<close>,
  \<^verbatim>\<open>collect_trends\<close>, \<^verbatim>\<open>analyze_data\<close> and \<^verbatim>\<open>generate_report\<close> to \<^verbatim>\<open>END\<close>.
  Invoking it runs the nodes in that order, merging each node's update into the state;
  an exception in a node ends the run.
\<close>

type_synonym node = "env \<Rightarrow> ForexAnalysisState \<Rightarrow> ForexAnalysisState io"

definition workflow :: "node list" where
  "workflow = [collect_exchange_rate, collect_news, collect_trends, analyze_data, generate_report]"

definition run_node :: "node \<Rightarrow> env \<Rightarrow> ForexAnalysisState \<Rightarrow> ForexAnalysisState io" where
  "run_node n E s = bind_io (n E s) (\<lambda>u. return_io (apply_update s u))"

fun run_nodes :: "node list \<Rightarrow> env \<Rightarrow> ForexAnalysisState \<Rightarrow> ForexAnalysisState io" where
  "run_nodes [] E s = return_io s"
| "run_nodes (n # ns) E s = bind_io (run_node n E s) (run_nodes ns E)"

definition graph_invoke :: "env \<Rightarrow> ForexAnalysisState \<Rightarrow> ForexAnalysisState io" where
  "graph_invoke E initial_state = run_nodes workflow E initial_state"

definition format_error :: string where
  "format_error = ''Error: Currency pair should be in format 'XXX/YYY' (e.g., 'USD/INR')''"

definition analyze_currency_pair :: "env \<Rightarrow> string \<Rightarrow> pyval io" where
  "analyze_currency_pair E pair =
     (if CHR ''/'' \<notin> set pair then return_io (PStr format_error)
      else
        let initial_state = empty_state\<lparr>currency_pair := Some pair\<rparr> in
        bind_io (graph_invoke E initial_state) (\<lambda>result.
          lift_io (state_getitem (final_report result) ''final_report'')))"

section \<open>Predicates of the statements\<close>

text \<open>
  An article as the news API sends it: a dictionary whose \<open>source\<close>, when present, is a
  dictionary.
\<close>

fun is_article :: "pyval \<Rightarrow> bool" where
  "is_article (PDict kvs) =
     (case map_of kvs ''source'' of None \<Rightarrow> True | Some (PDict _) \<Rightarrow> True | Some _ \<Rightarrow> False)"
| "is_article _ = False"

text \<open>A fetch has failed when the call raised or the status is not 200.\<close>

definition fetch_failed :: "exn + response \<Rightarrow> bool" where
  "fetch_failed r = (case r of Inl e \<Rightarrow> True | Inr resp \<Rightarrow> status_code resp \<noteq> 200)"

definition state_fields :: "string list" where
  "state_fields =
     [''currency_pair'', ''exchange_rate_data'', ''news_data'', ''trend_data'',
      ''data_analysis'', ''final_report'']"

text \<open>
  Two states agree on the fields produced before node \<open>i\<close> of the workflow (counted
  from 0): the currency pair and the fields of the nodes \<open>0, \<dots>, i - 1\<close>.
\<close>

definition agree_before :: "nat \<Rightarrow> ForexAnalysisState \<Rightarrow> ForexAnalysisState \<Rightarrow> bool" where
  "agree_before i s s' \<longleftrightarrow>
     currency_pair s = currency_pair s' \<and>
     (1 \<le> i \<longrightarrow> exchange_rate_data s = exchange_rate_data s') \<and>
     (2 \<le> i \<longrightarrow> news_data s = news_data s') \<and>
     (3 \<le> i \<longrightarrow> trend_data s = trend_data s') \<and>
     (4 \<le> i \<longrightarrow> data_analysis s = data_analysis s')"

section \<open>Test doubles\<close>

text \<open>
  A mocked outside world: no environment variable is set, the rate API (the request
  without parameters) and the news API (the request with parameters) give fixed answers,
  and the chat endpoint answers as the given function says.
\<close>

definition mock_draws :: draws where
  "mock_draws =
     \<lparr>trend_draw = 0, strength_draw = 2, sentiment_draw = 1,
      volatility_draw = 1 / 2, volume_draw = 100\<rparr>"

definition mock_env ::
  "(exn + response) \<Rightarrow> (exn + response) \<Rightarrow> (chat_request \<Rightarrow> exn + completion) \<Rightarrow> env" where
  "mock_env rate_answer news_answer chat_answer =
     \<lparr>getenv = (\<lambda>k. None),
      http = (\<lambda>url params. if params = [] then rate_answer else news_answer),
      chat = chat_answer,
      date_at_analysis = ''November 04, 2026'',
      date_at_report = ''November 04, 2026'',
      json_dumps = (\<lambda>v. ''{}''),
      py_repr = (\<lambda>v. ''{}''),
      rnd = mock_draws\<rparr>"

definition mock_rate_body :: pyval where
  "mock_rate_body = PDict
     [(''result'', PStr ''success''),
      (''time_last_update_utc'', PStr ''Wed, 04 Nov 2026 00:00:01 +0000''),
      (''time_next_update_utc'', PStr ''Thu, 05 Nov 2026 00:00:01 +0000''),
      (''conversion_rate'', PFloat (167 / 2))]"

definition mock_article :: "string \<Rightarrow> pyval" where
  "mock_article title = PDict
     [(''source'', PDict [(''id'', PNone), (''name'', PStr ''Wire'')]),
      (''title'', PStr title),
      (''description'', PStr ''...''),
      (''url'', PStr ''https://example.org''),
      (''publishedAt'', PStr ''2026-11-04T00:00:00Z'')]"

definition mock_news_body :: pyval where
  "mock_news_body = PDict
     [(''status'', PStr ''ok''),
      (''totalResults'', PInt 5),
      (''articles'', PList (map mock_article [''a1'', ''a2'', ''a3'', ''a4'', ''a5'']))]"

definition mock_entry :: "string \<Rightarrow> pyval" where
  "mock_entry title = PDict
     [(''title'', PStr title),
      (''source'', PStr ''Wire''),
      (''published_at'', PStr ''2026-11-04T00:00:00Z''),
      (''url'', PStr ''https://example.org''),
      (''description'', PStr ''...'')]"

definition mock_chat_ok :: "chat_request \<Rightarrow> exn + completion" where
  "mock_chat_ok req = Inr (Completion [PStr ''# Report''])"

definition mock_chat_down :: "chat_request \<Rightarrow> exn + completion" where
  "mock_chat_down req = Inl (LibraryError ''Connection error.'')"

text \<open>A chat endpoint that answers the analyst's request and fails on every other one.\<close>

definition mock_chat_report_down :: "chat_request \<Rightarrow> exn + completion" where
  "mock_chat_report_down req =
     (case messages req of
        (role, content) # rest \<Rightarrow>
          if content = ''You are an expert Forex Data Analyst.''
          then Inr (Completion [PStr ''Analysis.''])
          else Inl (LibraryError ''Connection error.'')
      | [] \<Rightarrow> Inl (LibraryError ''Connection error.''))"

text \<open>The state after the three collecting nodes when both APIs are down.\<close>

definition mock_trend_record :: pyval where
  "mock_trend_record = PDict
     [(''base_currency'', PStr ''USD''),
      (''target_currency'', PStr ''INR''),
      (''current_trend'', PStr ''upward''),
      (''trend_strength'', PInt 5),
      (''public_sentiment'', PStr ''bearish''),
      (''volatility'', PFloat (2871044762448691 / 1125899906842624)),
      (''trading_volume'', PStr ''150M'')]"

definition mock_collected :: ForexAnalysisState where
  "mock_collected =
     \<lparr>currency_pair = Some ''USD/INR'',
      exchange_rate_data = Some (error_record ''down''),
      news_data = Some (error_record ''down''),
      trend_data = Some mock_trend_record,
      data_analysis = None,
      final_report = None\<rparr>"

definition mock_apis_down :: "(chat_request \<Rightarrow> exn + completion) \<Rightarrow> env" where
  "mock_apis_down chat_answer =
     mock_env (Inl (LibraryError ''down'')) (Inl (LibraryError ''down'')) chat_answer"

text \<open>The final state of a run with both APIs down and the chat endpoint answering.\<close>

definition mock_final :: ForexAnalysisState where
  "mock_final = mock_collected
     \<lparr>data_analysis := Some (PStr ''# Report''), final_report := Some (PStr ''# Report'')\<rparr>"


section \<open>Basic facts about the effect combinators\<close>

lemma bind_io_simps:
  "bind_io (t, Inl e) f = (t, Inl e)"
  "bind_io (t, Inr x) f = (t @ fst (f x), snd (f x))"
  "bind_io (lift_io (Inl e)) f = ([], Inl e)"
  "bind_io (lift_io (Inr x)) f = f x"
  "bind_io (return_io x) f = f x"
  by (simp_all add: bind_io_def lift_io_def return_io_def split: prod.splits)

lemma try_except_simps:
  "try_except (t, Inl e) h = (t @ fst (h e), snd (h e))"
  "try_except (t, Inr x) h = (t, Inr x)"
  by (simp_all add: try_except_def split: prod.splits)

lemma return_io_sel:
  "fst (return_io x) = []"
  "snd (return_io x) = Inr x"
  by (simp_all add: return_io_def)

lemma mock_env_sel:
  "getenv (mock_env ra na ca) = (\<lambda>k. None)"
  "http (mock_env ra na ca) = (\<lambda>url params. if params = [] then ra else na)"
  "chat (mock_env ra na ca) = ca"
  "date_at_analysis (mock_env ra na ca) = ''November 04, 2026''"
  "date_at_report (mock_env ra na ca) = ''November 04, 2026''"
  "json_dumps (mock_env ra na ca) = (\<lambda>v. ''{}'')"
  "rnd (mock_env ra na ca) = mock_draws"
  by (simp_all add: mock_env_def)

lemma fst_bind_io:
  "fst (bind_io m f) = fst m @ (case snd m of Inl e \<Rightarrow> [] | Inr x \<Rightarrow> fst (f x))"
  by (cases m) (auto simp: bind_io_def split: sum.splits prod.splits)

lemma snd_bind_io:
  "snd (bind_io m f) = (case snd m of Inl e \<Rightarrow> Inl e | Inr x \<Rightarrow> snd (f x))"
  by (cases m) (auto simp: bind_io_def split: sum.splits prod.splits)

lemma lift_io_sel:
  "fst (lift_io r) = []"
  "snd (lift_io r) = r"
  by (simp_all add: lift_io_def)

lemma chat_create_sel:
  "fst (chat_completions_create E r) = [ChatCompletion r]"
  "snd (chat_completions_create E r) = chat E r"
  by (simp_all add: chat_completions_create_def)

section \<open>The exchange-rate fetcher\<close>

lemma get_exchange_rate_raised:
  "http E (rate_url E b t) [] = Inl e \<Longrightarrow>
   get_exchange_rate E b t = ([HttpGet (rate_url E b t) []], Inr (error_record (str_exn e)))"
  by (simp add: get_exchange_rate_def requests_get_def bind_io_simps try_except_simps
      return_io_sel)

lemma get_exchange_rate_status:
  "http E (rate_url E b t) [] = Inr r \<Longrightarrow> status_code r \<noteq> 200 \<Longrightarrow>
   get_exchange_rate E b t =
     ([HttpGet (rate_url E b t) []],
      Inr (error_record (''API returned status code '' @ str_int (status_code r))))"
  by (simp add: get_exchange_rate_def requests_get_def bind_io_simps try_except_simps
      return_io_sel)

lemma get_exchange_rate_returns:
  "\<exists>v. get_exchange_rate E b t = ([HttpGet (rate_url E b t) []], Inr v)"
proof (cases "http E (rate_url E b t) []")
  case (Inl e)
  then show ?thesis by (simp add: get_exchange_rate_raised)
next
  case (Inr r)
  show ?thesis
  proof (cases "status_code r = 200")
    case False
    with Inr show ?thesis by (simp add: get_exchange_rate_status)
  next
    case True
    with Inr show ?thesis
      by (auto simp add: get_exchange_rate_def requests_get_def try_except_simps
          lift_io_def bind_io_def return_io_def split: sum.splits prod.splits)
  qed
qed

text \<open>
  C3: whatever the two currency codes, when the rate API answers with status 200 and a
  body whose \<open>conversion_rate\<close> is 83.5 and that holds the two update times,
  \<open>get_exchange_rate\<close> returns the record with rate 83.5, status \<open>success\<close>, and
  \<open>last_updated\<close> and \<open>next_update\<close> taken from \<open>time_last_update_utc\<close> and
  \<open>time_next_update_utc\<close> of the body.
\<close>

theorem get_exchange_rate_success:
  assumes "http E (rate_url E b t) [] = Inr (Response 200 (Inr (PDict body)))"
    and "map_of body ''conversion_rate'' = Some (PFloat (167 / 2))"
    and "map_of body ''time_last_update_utc'' = Some lu"
    and "map_of body ''time_next_update_utc'' = Some nu"
  shows "snd (get_exchange_rate E b t) = Inr (PDict
     [(''base_currency'', PStr b),
      (''target_currency'', PStr t),
      (''rate'', PFloat (167 / 2)),
      (''last_updated'', lu),
      (''next_update'', nu),
      (''status'', PStr ''success'')])"
  using assms
  by (simp add: get_exchange_rate_def requests_get_def bind_io_simps try_except_simps
      return_io_sel)

theorem get_exchange_rate_success_witness:
  "snd (get_exchange_rate
          (mock_env (Inr (Response 200 (Inr mock_rate_body))) (Inl (LibraryError ''down''))
             mock_chat_ok)
          ''USD'' ''INR'') =
   Inr (PDict
     [(''base_currency'', PStr ''USD''),
      (''target_currency'', PStr ''INR''),
      (''rate'', PFloat (167 / 2)),
      (''last_updated'', PStr ''Wed, 04 Nov 2026 00:00:01 +0000''),
      (''next_update'', PStr ''Thu, 05 Nov 2026 00:00:01 +0000''),
      (''status'', PStr ''success'')])"
  using get_exchange_rate_success
    [of "mock_env (Inr (Response 200 (Inr mock_rate_body))) (Inl (LibraryError ''down''))
           mock_chat_ok"
        "''USD''" "''INR''"
        "[(''result'', PStr ''success''),
          (''time_last_update_utc'', PStr ''Wed, 04 Nov 2026 00:00:01 +0000''),
          (''time_next_update_utc'', PStr ''Thu, 05 Nov 2026 00:00:01 +0000''),
          (''conversion_rate'', PFloat (167 / 2))]"
        "PStr ''Wed, 04 Nov 2026 00:00:01 +0000''"
        "PStr ''Thu, 05 Nov 2026 00:00:01 +0000''"]
  by (simp add: mock_env_sel mock_rate_body_def)

text \<open>
  C4: whatever the two currency codes, when the rate API answers with status 404,
  \<open>get_exchange_rate\<close> returns a record with status \<open>error\<close> and a message that
  contains \<open>404\<close>.
\<close>

theorem get_exchange_rate_404:
  assumes "http E (rate_url E b t) [] = Inr (Response 404 body)"
  shows "\<exists>msg. snd (get_exchange_rate E b t) =
           Inr (PDict [(''status'', PStr ''error''), (''message'', PStr msg)])
         \<and> sublist ''404'' msg"
proof -
  have "str_int 404 = ''404''"
    by (simp add: str_int_def str_nat.simps digit_char_def)
  with assms have "snd (get_exchange_rate E b t) =
      Inr (PDict [(''status'', PStr ''error''),
                  (''message'', PStr (''API returned status code '' @ ''404''))])"
    by (simp add: get_exchange_rate_status error_record_def)
  moreover have "sublist ''404'' (''API returned status code '' @ ''404'')"
    unfolding sublist_def by (intro exI [of _ "''API returned status code ''"] exI [of _ "[]"]) simp
  ultimately show ?thesis by blast
qed

theorem get_exchange_rate_404_witness:
  "\<exists>msg. snd (get_exchange_rate
                (mock_env (Inr (Response 404 (Inl (LibraryError ''no JSON''))))
                   (Inl (LibraryError ''down'')) mock_chat_ok)
                ''USD'' ''XXX'') =
           Inr (PDict [(''status'', PStr ''error''), (''message'', PStr msg)])
         \<and> sublist ''404'' msg"
  using get_exchange_rate_404
    [of "mock_env (Inr (Response 404 (Inl (LibraryError ''no JSON''))))
           (Inl (LibraryError ''down'')) mock_chat_ok"
        "''USD''" "''XXX''" "Inl (LibraryError ''no JSON'')"]
  by (simp add: mock_env_sel)

section \<open>The entry check\<close>

text \<open>
  C2: for every string without the character \<open>/\<close>, \<open>analyze_currency_pair\<close> returns the
  fixed error string, and the trace of outside calls is empty: the request is rejected
  before the graph runs and before any network call.
\<close>

theorem analyze_currency_pair_rejects:
  assumes "CHR ''/'' \<notin> set pair"
  shows "analyze_currency_pair E pair =
     ([], Inr (PStr ''Error: Currency pair should be in format 'XXX/YYY' (e.g., 'USD/INR')''))"
  using assms by (simp add: analyze_currency_pair_def return_io_def format_error_def)

theorem analyze_currency_pair_rejects_witness:
  "analyze_currency_pair
     (mock_env (Inr (Response 200 (Inr mock_rate_body)))
        (Inr (Response 200 (Inr mock_news_body))) mock_chat_ok)
     ''USDINR'' =
   ([], Inr (PStr ''Error: Currency pair should be in format 'XXX/YYY' (e.g., 'USD/INR')''))"
  using analyze_currency_pair_rejects
    [of "''USDINR''"
        "mock_env (Inr (Response 200 (Inr mock_rate_body)))
           (Inr (Response 200 (Inr mock_news_body))) mock_chat_ok"]
  by simp

text \<open>
  C10: some input passes the entry check and still aborts the run: \<open>A/B/C\<close> contains
  \<open>/\<close>, its split has three parts, so the unpacking in the first node,
  \<open>collect_exchange_rate\<close>, raises \<open>ValueError\<close> before any outside call, and
  \<open>analyze_currency_pair\<close> ends with that exception: neither a report nor the fixed
  error string is returned.
\<close>

theorem accepted_pair_aborts_first_node:
  "\<exists>pair e. CHR ''/'' \<in> set pair
     \<and> (\<forall>E. collect_exchange_rate E (empty_state\<lparr>currency_pair := Some pair\<rparr>) = ([], Inl e)
            \<and> analyze_currency_pair E pair = ([], Inl e))"
proof (intro exI conjI allI)
  show "CHR ''/'' \<in> set ''A/B/C''" by simp
next
  fix E
  show "collect_exchange_rate E (empty_state\<lparr>currency_pair := Some ''A/B/C''\<rparr>) =
      ([], Inl (ValueError ''too many values to unpack (expected 2)''))"
    by (simp add: collect_exchange_rate_def bind_io_simps empty_state_def state_getitem_def)
  then show "analyze_currency_pair E ''A/B/C'' =
      ([], Inl (ValueError ''too many values to unpack (expected 2)''))"
    by (simp add: analyze_currency_pair_def graph_invoke_def workflow_def run_node_def
        bind_io_simps)
qed

section \<open>Splitting a currency pair\<close>

lemma split_on_nonempty: "split_on c s \<noteq> []"
  by (induction s) (auto split: list.splits)

lemma length_split_on: "length (split_on c s) = Suc (count_list s c)"
  by (induction s) (auto split: list.splits simp: split_on_nonempty)

lemma unpack2_Inr_iff: "(\<exists>a b. unpack2 ps = Inr (a, b)) \<longleftrightarrow> length ps = 2"
  by (cases ps rule: unpack2.cases) auto

lemma unpack2_split_on:
  "(\<exists>a b. unpack2 (split_on c s) = Inr (a, b)) \<longleftrightarrow> count_list s c = 1"
  by (simp add: unpack2_Inr_iff length_split_on)

section \<open>Rounding to doubles\<close>

lemma round_half_even_ge:
  assumes "of_int m \<le> y"
  shows "m \<le> round_half_even y"
proof -
  have "m \<le> \<lfloor>y\<rfloor>" using assms by (simp add: le_floor_iff)
  then show ?thesis
    unfolding round_half_even_def Let_def by auto
qed

lemma round_half_even_le: "y \<le> of_int n \<Longrightarrow> round_half_even y \<le> n"
proof -
  assume a: "y \<le> of_int n"
  then have hi: "\<lfloor>y\<rfloor> \<le> n" by (simp add: floor_le_iff)
  have strict: "\<lfloor>y\<rfloor> < n" if "y - of_int \<lfloor>y\<rfloor> \<ge> 1 / 2"
  proof -
    from that have "of_int \<lfloor>y\<rfloor> < y" by linarith
    with a have "(of_int \<lfloor>y\<rfloor> :: rat) < of_int n" by linarith
    then show ?thesis by simp
  qed
  show ?thesis
    using hi strict unfolding round_half_even_def Let_def
    by (auto simp: not_less)
qed

lemma round_half_even_mono:
  assumes "a \<le> b"
  shows "round_half_even a \<le> round_half_even b"
proof (cases "\<lfloor>a\<rfloor> = \<lfloor>b\<rfloor>")
  case True
  with assms show ?thesis
    unfolding round_half_even_def Let_def by auto
next
  case False
  with assms have "\<lfloor>a\<rfloor> < \<lfloor>b\<rfloor>"
    using floor_mono [of a b] by linarith
  then have "\<lfloor>a\<rfloor> + 1 \<le> \<lfloor>b\<rfloor>" by simp
  moreover have "round_half_even a \<le> \<lfloor>a\<rfloor> + 1"
    unfolding round_half_even_def Let_def by auto
  moreover have "\<lfloor>b\<rfloor> \<le> round_half_even b"
    unfolding round_half_even_def Let_def by auto
  ultimately show ?thesis by linarith
qed

lemma binade_bounds:
  assumes "0 < x"
  shows "2 powi binade x \<le> x \<and> x < 2 powi (binade x + 1)"
proof (cases "1 \<le> x")
  case True
  define m where "m = nat \<lfloor>x\<rfloor>"
  define L where "L = floorlog 2 m"
  from True have m1: "1 \<le> m" by (simp add: m_def le_nat_iff le_floor_iff)
  then have b: "2 ^ (L - 1) \<le> m" "m < 2 ^ L"
    using floorlog_bounds [of m 2] by (simp_all add: L_def)
  from m1 have L1: "1 \<le> L"
    using floorlog_eq_zero_iff [of 2 m] by (simp add: L_def) 
  have e: "binade x = int (L - 1)"
    using True L1 by (simp add: binade_def m_def L_def)
  have mx: "rat_of_nat m \<le> x" "x < rat_of_nat m + 1"
    using True by (simp_all add: m_def) linarith+
  have p1: "(2::rat) ^ (L - 1) \<le> of_nat m"
    using b(1) by (metis of_nat_le_iff of_nat_numeral of_nat_power)
  have p2: "rat_of_nat m + 1 \<le> 2 ^ L"
  proof -
    from b(2) have "m + 1 \<le> 2 ^ L" by simp
    then have "rat_of_nat (m + 1) \<le> of_nat (2 ^ L)" by (simp only: of_nat_le_iff)
    then show ?thesis by simp
  qed
  have s: "int (L - 1) + 1 = int L" using L1 by simp
  have "(2::rat) powi int (L - 1) \<le> x"
    unfolding power_int_of_nat using p1 mx(1) by linarith
  moreover have "x < 2 powi (int (L - 1) + 1)"
    unfolding s power_int_of_nat using p2 mx(2) by linarith
  ultimately show ?thesis by (simp only: e)
next
  case False
  define y where "y = 1 / x"
  define m where "m = nat (\<lceil>y\<rceil> - 1)"
  define L where "L = floorlog 2 m"
  from False assms have y1: "1 < y" by (simp add: y_def)
  then have c2: "2 \<le> \<lceil>y\<rceil>" by (simp add: le_ceiling_iff)
  have m1: "1 \<le> m" unfolding m_def using c2 by linarith
  then have b: "2 ^ (L - 1) \<le> m" "m < 2 ^ L"
    using floorlog_bounds [of m 2] by (simp_all add: L_def)
  from m1 have L1: "1 \<le> L"
    using floorlog_eq_zero_iff [of 2 m] by (simp add: L_def)
  have e: "binade x = - int L"
    using False by (simp add: binade_def m_def L_def y_def)
  have my: "rat_of_nat m < y" "y \<le> rat_of_nat m + 1"
  proof -
    have "rat_of_nat m = of_int (\<lceil>y\<rceil> - 1)" using c2 by (simp add: m_def)
    then show "rat_of_nat m < y" "y \<le> rat_of_nat m + 1"
      by (simp_all add: le_of_int_ceiling) linarith
  qed
  have p1: "(2::rat) ^ (L - 1) \<le> of_nat m"
    using b(1) by (metis of_nat_le_iff of_nat_numeral of_nat_power)
  have p2: "rat_of_nat m + 1 \<le> 2 ^ L"
  proof -
    from b(2) have "m + 1 \<le> 2 ^ L" by simp
    then have "rat_of_nat (m + 1) \<le> of_nat (2 ^ L)" by (simp only: of_nat_le_iff)
    then show ?thesis by simp
  qed
  have ylo: "(2::rat) ^ (L - 1) < y" and yhi: "y \<le> 2 ^ L"
    using p1 p2 my by linarith+
  have x_eq: "x = 1 / y" using assms by (simp add: y_def)
  have lo: "1 / 2 ^ L \<le> x"
    unfolding x_eq using yhi y1 by (simp add: frac_le)
  have hi: "x < 1 / 2 ^ (L - 1)"
    unfolding x_eq using ylo by (simp add: frac_less2)
  have "2 powi (- int L) = 1 / (2::rat) ^ L"
    by (simp add: power_int_minus field_simps)
  moreover have "2 powi (- int L + 1) = 1 / (2::rat) ^ (L - 1)"
  proof -
    have "- int L + 1 = - int (L - 1)" using L1 by simp
    then have "(2::rat) powi (- int L + 1) = 2 powi (- int (L - 1))" by (simp only:)
    also have "\<dots> = inverse (2 ^ (L - 1))"
      by (simp only: power_int_minus power_int_of_nat)
    finally show ?thesis by (simp only: inverse_eq_divide)
  qed
  ultimately show ?thesis
    using lo hi by (simp add: e)
qed

lemma binade_mono:
  assumes "0 < x" and "x \<le> y"
  shows "binade x \<le> binade y"
proof (rule ccontr)
  assume "\<not> binade x \<le> binade y"
  then have "binade y + 1 \<le> binade x" by simp
  then have "(2::rat) powi (binade y + 1) \<le> 2 powi binade x"
    by (intro power_int_increasing) simp_all
  moreover have "y < 2 powi (binade y + 1)" "2 powi binade x \<le> x"
    using binade_bounds [of x] binade_bounds [of y] assms by simp_all
  ultimately show False using assms(2) by linarith
qed

lemma to_double_pos_eq:
  assumes "0 < x"
  shows "to_double x =
     of_int (round_half_even (x / 2 powi (max (binade x) (- 1022) - 52)))
       * 2 powi (max (binade x) (- 1022) - 52)"
  using assms by (simp add: to_double_def Let_def)

lemma to_double_nonneg:
  assumes "0 \<le> x"
  shows "0 \<le> to_double x"
proof (cases "x = 0")
  case True
  then show ?thesis by (simp add: to_double_def)
next
  case False
  with assms have x: "0 < x" by simp
  let ?s = "(2::rat) powi (max (binade x) (- 1022) - 52)"
  have s: "0 < ?s" by simp
  then have "of_int 0 \<le> x / ?s" using x by simp
  then have "0 \<le> round_half_even (x / ?s)" by (rule round_half_even_ge)
  then show ?thesis
    using s by (simp add: to_double_pos_eq [OF x])
qed

lemma powi_split:
  "(2::rat) powi k * 2 powi (e - k) = 2 powi e"
proof -
  have "(2::rat) powi k * 2 powi (e - k) = 2 powi (k + (e - k))"
    by (rule power_int_add [symmetric]) simp
  then show ?thesis by simp
qed

lemma to_double_upper:
  assumes "0 < x"
  shows "to_double x \<le> 2 powi (max (binade x) (- 1022) + 1)"
proof -
  let ?E = "max (binade x) (- 1022)"
  let ?s = "(2::rat) powi (?E - 52)"
  let ?n = "round_half_even (x / ?s)"
  have s: "0 < ?s" by simp
  have split: "(2::rat) powi 53 * ?s = 2 powi (?E + 1)"
    using powi_split [of 53 "?E + 1"] by simp
  have "x < 2 powi (binade x + 1)" using binade_bounds [OF assms] by simp
  also have "\<dots> \<le> 2 powi (?E + 1)" by (intro power_int_increasing) simp_all
  finally have "x \<le> 2 powi 53 * ?s" by (simp only: split)
  then have "x / ?s \<le> 2 powi 53" using s by (simp only: pos_divide_le_eq)
  moreover have "(2::rat) powi 53 = of_int (2 ^ 53)" by simp
  ultimately have "x / ?s \<le> of_int (2 ^ 53)" by (simp only:)
  then have "?n \<le> 2 ^ 53" by (rule round_half_even_le)
  then have "rat_of_int ?n \<le> of_int (2 ^ 53)"
    by (simp only: of_int_le_iff)
  also have "rat_of_int (2 ^ 53) = 2 powi 53" by simp
  finally have "of_int ?n * ?s \<le> 2 powi 53 * ?s"
    using s by (simp only: mult_le_cancel_right_pos)
  then show ?thesis by (simp only: to_double_pos_eq [OF assms] split)
qed

lemma to_double_lower:
  assumes "0 < x" and "- 1022 \<le> binade x"
  shows "2 powi binade x \<le> to_double x"
proof -
  let ?s = "(2::rat) powi (binade x - 52)"
  let ?n = "round_half_even (x / ?s)"
  have E: "max (binade x) (- 1022) = binade x" using assms(2) by simp
  have s: "0 < ?s" by simp
  have split: "(2::rat) powi 52 * ?s = 2 powi binade x"
    by (rule powi_split)
  have "2 powi binade x \<le> x" using binade_bounds [OF assms(1)] by simp
  then have "2 powi 52 * ?s \<le> x" by (simp only: split)
  then have "2 powi 52 \<le> x / ?s" using s by (simp only: pos_le_divide_eq)
  moreover have "(2::rat) powi 52 = of_int (2 ^ 52)" by simp
  ultimately have "of_int (2 ^ 52) \<le> x / ?s" by (simp only:)
  then have "2 ^ 52 \<le> ?n" by (rule round_half_even_ge)
  then have "rat_of_int (2 ^ 52) \<le> of_int ?n"
    by (simp only: of_int_le_iff)
  moreover have "rat_of_int (2 ^ 52) = 2 powi 52" by simp
  ultimately have "2 powi 52 \<le> rat_of_int ?n" by (simp only:)
  then have "2 powi 52 * ?s \<le> of_int ?n * ?s"
    using s by (simp only: mult_le_cancel_right_pos)
  then show ?thesis by (simp only: to_double_pos_eq [OF assms(1)] E split)
qed

lemma to_double_mono:
  assumes "0 \<le> x" and "x \<le> y"
  shows "to_double x \<le> to_double y"
proof (cases "x = 0")
  case True
  with assms to_double_nonneg [of y] show ?thesis by (simp add: to_double_def)
next
  case False
  with assms have x: "0 < x" and y: "0 < y" by simp_all
  let ?Ex = "max (binade x) (- 1022)"
  let ?Ey = "max (binade y) (- 1022)"
  have le: "?Ex \<le> ?Ey" using binade_mono [OF x assms(2)] by simp
  show ?thesis
  proof (cases "?Ex = ?Ey")
    case True
    let ?s = "(2::rat) powi (?Ey - 52)"
    have s: "0 < ?s" by simp
    have "x / ?s \<le> y / ?s" using assms(2) s by (simp add: divide_right_mono)
    then have "round_half_even (x / ?s) \<le> round_half_even (y / ?s)"
      by (rule round_half_even_mono)
    then have "rat_of_int (round_half_even (x / ?s)) * ?s \<le> of_int (round_half_even (y / ?s)) * ?s"
      using s by (simp only: mult_le_cancel_right_pos of_int_le_iff)
    then show ?thesis by (simp only: to_double_pos_eq [OF x] to_double_pos_eq [OF y] True)
  next
    case False
    with le have lt: "?Ex + 1 \<le> ?Ey" by simp
    then have by1: "- 1022 \<le> binade y" and Ey: "?Ey = binade y" by auto
    have "to_double x \<le> 2 powi (?Ex + 1)" by (rule to_double_upper [OF x])
    also have "\<dots> \<le> 2 powi ?Ey" using lt by (intro power_int_increasing) simp_all
    also have "\<dots> = 2 powi binade y" by (simp only: Ey)
    also have "\<dots> \<le> to_double y" by (rule to_double_lower [OF y by1])
    finally show ?thesis .
  qed
qed

section \<open>The trend sampler\<close>

text \<open>
  The doubles behind \<^verbatim>\<open>random.uniform(0.1, 5.0)\<close>: the literal \<^verbatim>\<open>0.1\<close>, the difference
  \<^verbatim>\<open>5.0 - 0.1\<close>, and their sum, which rounds to \<open>5\<close>.
\<close>

lemma double_tenth: "to_double (1 / 10) = 3602879701896397 / 36028797018963968"
  by code_simp

lemma double_five: "to_double 5 = 5"
  by code_simp

lemma double_tenth_fixed:
  "to_double (3602879701896397 / 36028797018963968) = 3602879701896397 / 36028797018963968"
  by code_simp

lemma double_width:
  "to_double (5 - 3602879701896397 / 36028797018963968) = 2758454771764429 / 562949953421312"
  by code_simp

lemma double_width_fixed:
  "to_double (2758454771764429 / 562949953421312) = 2758454771764429 / 562949953421312"
  by code_simp

lemma double_top:
  "to_double (3602879701896397 / 36028797018963968 + 2758454771764429 / 562949953421312) = 5"
  by code_simp

lemma random_uniform_bounds:
  assumes "0 \<le> r" and "r < 1"
  shows "to_double (1 / 10) \<le> random_uniform (to_double (1 / 10)) (to_double 5) r
       \<and> random_uniform (to_double (1 / 10)) (to_double 5) r \<le> 5"
proof -
  let ?a = "3602879701896397 / 36028797018963968 :: rat"
  let ?w = "2758454771764429 / 562949953421312 :: rat"
  let ?p = "to_double (?w * r)"
  have u: "random_uniform (to_double (1 / 10)) (to_double 5) r = to_double (?a + ?p)"
    by (simp only: random_uniform_def float_add_def float_mul_def float_sub_def
        double_tenth double_five double_width)
  have w0: "0 \<le> ?w * r" and w1: "?w * r \<le> ?w" using assms by simp_all
  have "to_double 0 \<le> ?p" by (rule to_double_mono [OF order_refl w0])
  then have p0: "0 \<le> ?p" by (simp add: to_double_def)
  have "?p \<le> to_double ?w" by (rule to_double_mono [OF w0 w1])
  then have p1: "?p \<le> ?w" by (simp only: double_width_fixed)
  have a0: "0 \<le> ?a" by simp
  have a1: "?a \<le> ?a + ?p" using p0 by simp
  have a2: "0 \<le> ?a + ?p" using p0 by simp
  have a3: "?a + ?p \<le> ?a + ?w" using p1 by simp
  have "to_double ?a \<le> to_double (?a + ?p)" by (rule to_double_mono [OF a0 a1])
  then have lo: "?a \<le> to_double (?a + ?p)" by (simp only: double_tenth_fixed)
  have "to_double (?a + ?p) \<le> to_double (?a + ?w)" by (rule to_double_mono [OF a2 a3])
  then have hi: "to_double (?a + ?p) \<le> 5" by (simp only: double_top)
  have "to_double (1 / 10) \<le> to_double (?a + ?p) \<and> to_double (?a + ?p) \<le> 5"
    using lo hi by (simp only: double_tenth)
  then show ?thesis by (simp only: u)
qed

lemma py_round_2_bounds:
  assumes "to_double (1 / 10) \<le> x" and "x \<le> 5"
  shows "to_double (1 / 10) \<le> py_round x 2 \<and> py_round x 2 \<le> 5"
proof -
  let ?n = "round_half_even (x * 10 ^ 2)"
  from assms(1) have "1 / 10 \<le> x" by (simp add: double_tenth)
  then have "of_int 10 \<le> x * 10 ^ 2" by simp
  then have lo: "10 \<le> ?n" by (rule round_half_even_ge)
  from assms(2) have "x * 10 ^ 2 \<le> of_int 500" by simp
  then have hi: "?n \<le> 500" by (rule round_half_even_le)
  from lo have "(10::rat) \<le> of_int ?n" by linarith
  then have a: "(0::rat) \<le> 1 / 10" "1 / 10 \<le> rat_of_int ?n / 10 ^ 2" by simp_all
  from hi have "rat_of_int ?n \<le> 500" by linarith
  then have b: "(0::rat) \<le> rat_of_int ?n / 10 ^ 2" "rat_of_int ?n / 10 ^ 2 \<le> 5"
    using a by simp_all
  have "to_double (1 / 10) \<le> to_double (rat_of_int ?n / 10 ^ 2)"
    using a by (rule to_double_mono)
  moreover have "to_double (rat_of_int ?n / 10 ^ 2) \<le> to_double 5"
    using b by (rule to_double_mono)
  ultimately show ?thesis by (simp only: py_round_def double_five)
qed

lemma py_round_2_decimal: "\<exists>n::int. py_round x 2 = to_double (of_int n / 100)"
  by (auto simp: py_round_def)

lemma random_choice_Inr: "random_choice seq i = Inr x \<Longrightarrow> x \<in> set seq"
  by (auto simp: random_choice_def split: if_splits)

lemma analyze_forex_trends_returns:
  assumes "unpack2 (split_on CHR ''/'' pair) = Inr (b, t)" and "draws_ok (rnd E)"
  shows "\<exists>r. analyze_forex_trends E pair = Inr r"
  using assms
  by (simp add: analyze_forex_trends_def bind_exn_def random_choice_def draws_ok_def)

lemma mock_volatility:
  "py_round (random_uniform (to_double (1 / 10)) (to_double 5) (1 / 2)) 2 =
     2871044762448691 / 1125899906842624"
  by code_simp

text \<open>
  C5: for every currency pair and every draw the \<^verbatim>\<open>random\<close> module can produce, the
  record that \<open>analyze_forex_trends\<close> returns has \<open>trend_strength\<close> in \<open>[3, 8]\<close>,
  \<open>public_sentiment\<close> one of bullish, bearish, neutral, \<open>current_trend\<close> one of upward,
  downward, sideways, and a \<open>volatility\<close> that lies between the doubles \<^verbatim>\<open>0.1\<close> and
  \<^verbatim>\<open>5.0\<close> and is the double of a number with two decimal places.
\<close>

theorem trend_record_ranges:
  assumes "draws_ok (rnd E)" and "analyze_forex_trends E pair = Inr r"
  shows "\<exists>base target trend strength sentiment vol volume.
     r = PDict
       [(''base_currency'', PStr base),
        (''target_currency'', PStr target),
        (''current_trend'', PStr trend),
        (''trend_strength'', PInt strength),
        (''public_sentiment'', PStr sentiment),
        (''volatility'', PFloat vol),
        (''trading_volume'', PStr volume)]
     \<and> 3 \<le> strength \<and> strength \<le> 8
     \<and> to_double (1 / 10) \<le> vol \<and> 1 / 10 \<le> vol \<and> vol \<le> 5
     \<and> (\<exists>n::int. vol = to_double (of_int n / 100))
     \<and> sentiment \<in> {''bullish'', ''bearish'', ''neutral''}
     \<and> trend \<in> {''upward'', ''downward'', ''sideways''}"
proof -
  let ?d = "rnd E"
  let ?v = "py_round (random_uniform (to_double (1 / 10)) (to_double 5) (volatility_draw ?d)) 2"
  from assms(2) obtain base target trend sentiment where
    tr: "random_choice [''upward'', ''downward'', ''sideways''] (trend_draw ?d) = Inr trend" and
    se: "random_choice [''bullish'', ''bearish'', ''neutral''] (sentiment_draw ?d) = Inr sentiment" and
    r: "r = PDict
       [(''base_currency'', PStr base),
        (''target_currency'', PStr target),
        (''current_trend'', PStr trend),
        (''trend_strength'', PInt (random_randint 3 8 (strength_draw ?d))),
        (''public_sentiment'', PStr sentiment),
        (''volatility'', PFloat ?v),
        (''trading_volume'', PStr (str_int (random_randint 50 500 (volume_draw ?d)) @ ''M''))]"
    by (auto simp: analyze_forex_trends_def bind_exn_def Let_def split: sum.splits prod.splits)
  have st: "3 \<le> random_randint 3 8 (strength_draw ?d)
      \<and> random_randint 3 8 (strength_draw ?d) \<le> 8"
    using assms(1) by (simp add: draws_ok_def random_randint_def)
  have "0 \<le> volatility_draw ?d" "volatility_draw ?d < 1"
    using assms(1) by (simp_all add: draws_ok_def)
  then have vo: "to_double (1 / 10) \<le> ?v \<and> ?v \<le> 5"
    using random_uniform_bounds [of "volatility_draw ?d"] by (intro py_round_2_bounds) simp_all
  then have vr: "1 / 10 \<le> ?v" by (simp add: double_tenth)
  have ro: "\<exists>n::int. ?v = to_double (of_int n / 100)"
    by (rule py_round_2_decimal)
  from random_choice_Inr [OF tr]
  have t: "trend \<in> {''upward'', ''downward'', ''sideways''}" by simp
  from random_choice_Inr [OF se]
  have s: "sentiment \<in> {''bullish'', ''bearish'', ''neutral''}" by simp
  show ?thesis
    using r st vo vr ro t s by blast
qed

theorem trend_record_ranges_witness:
  "draws_ok (rnd (mock_env (Inl (LibraryError ''down'')) (Inl (LibraryError ''down'')) mock_chat_ok))
   \<and> analyze_forex_trends
        (mock_env (Inl (LibraryError ''down'')) (Inl (LibraryError ''down'')) mock_chat_ok)
        ''USD/INR'' =
      Inr (PDict
        [(''base_currency'', PStr ''USD''),
         (''target_currency'', PStr ''INR''),
         (''current_trend'', PStr ''upward''),
         (''trend_strength'', PInt 5),
         (''public_sentiment'', PStr ''bearish''),
         (''volatility'', PFloat (2871044762448691 / 1125899906842624)),
         (''trading_volume'', PStr ''150M'')])
   \<and> (3::int) \<le> 5 \<and> (5::int) \<le> 8
   \<and> to_double (1 / 10) \<le> 2871044762448691 / 1125899906842624
   \<and> (2871044762448691 / 1125899906842624 :: rat) \<le> 5
   \<and> (\<exists>n::int. (2871044762448691 / 1125899906842624 :: rat) = to_double (of_int n / 100))"
proof -
  let ?E = "mock_env (Inl (LibraryError ''down'')) (Inl (LibraryError ''down'')) mock_chat_ok"
  have d: "draws_ok (rnd ?E)"
    by (simp add: mock_env_sel mock_draws_def draws_ok_def)
  have a: "analyze_forex_trends ?E ''USD/INR'' =
      Inr (PDict
        [(''base_currency'', PStr ''USD''),
         (''target_currency'', PStr ''INR''),
         (''current_trend'', PStr ''upward''),
         (''trend_strength'', PInt 5),
         (''public_sentiment'', PStr ''bearish''),
         (''volatility'', PFloat (2871044762448691 / 1125899906842624)),
         (''trading_volume'', PStr ''150M'')])"
    by (simp add: analyze_forex_trends_def mock_env_sel mock_draws_def bind_exn_def
        random_choice_def random_randint_def mock_volatility str_int_def str_nat.simps
        digit_char_def)
  have c1: "to_double (1 / 10) \<le> 2871044762448691 / 1125899906842624"
    by (simp add: double_tenth)
  have "to_double (rat_of_int 255 / 100) = 2871044762448691 / 1125899906842624"
    by code_simp
  then have c2: "\<exists>n::int. (2871044762448691 / 1125899906842624 :: rat) = to_double (of_int n / 100)"
    by (intro exI [of _ 255]) (simp only:)
  show ?thesis
    using trend_record_ranges [OF d a] d a c1 c2 by (intro conjI) simp_all
qed

text \<open>
  Called on its own with \<open>A/B/C\<close> the function raises at the unpacking. In the graph that
  string never reaches it: the first node stops the run (see the last section).
\<close>

lemma analyze_forex_trends_three_parts:
  "analyze_forex_trends E ''A/B/C'' =
     Inl (ValueError ''too many values to unpack (expected 2)'')"
  by (simp add: analyze_forex_trends_def bind_exn_def)

section \<open>The news fetcher\<close>

lemma get_forex_news_unpack_failed:
  "unpack2 (split_on CHR ''/'' pair) = Inl e \<Longrightarrow> get_forex_news E pair = ([], Inl e)"
  by (simp add: get_forex_news_def bind_io_simps)

lemma get_forex_news_raised:
  "unpack2 (split_on CHR ''/'' pair) = Inr (b, t) \<Longrightarrow>
   http E news_url (news_params E b t) = Inl e \<Longrightarrow>
   get_forex_news E pair =
     ([HttpGet news_url (news_params E b t)], Inr (error_record (str_exn e)))"
  by (simp add: get_forex_news_def requests_get_def bind_io_simps try_except_simps
      return_io_sel)

lemma get_forex_news_status:
  "unpack2 (split_on CHR ''/'' pair) = Inr (b, t) \<Longrightarrow>
   http E news_url (news_params E b t) = Inr r \<Longrightarrow> status_code r \<noteq> 200 \<Longrightarrow>
   get_forex_news E pair =
     ([HttpGet news_url (news_params E b t)],
      Inr (error_record (''API returned status code '' @ str_int (status_code r))))"
  by (simp add: get_forex_news_def requests_get_def bind_io_simps try_except_simps
      return_io_sel)

lemma get_forex_news_returns:
  assumes "unpack2 (split_on CHR ''/'' pair) = Inr (b, t)"
  shows "\<exists>v. get_forex_news E pair = ([HttpGet news_url (news_params E b t)], Inr v)"
proof (cases "http E news_url (news_params E b t)")
  case (Inl e)
  with assms show ?thesis by (simp add: get_forex_news_raised)
next
  case (Inr r)
  show ?thesis
  proof (cases "status_code r = 200")
    case False
    with assms Inr show ?thesis by (simp add: get_forex_news_status)
  next
    case True
    with assms Inr show ?thesis
      by (auto simp add: get_forex_news_def requests_get_def try_except_simps
          lift_io_def bind_io_def return_io_def split: sum.splits prod.splits)
  qed
qed

lemma mapM_exn_Inr:
  "mapM_exn f xs = Inr ys \<Longrightarrow> list_all2 (\<lambda>x y. f x = Inr y) xs ys"
proof (induction xs arbitrary: ys)
  case Nil
  then show ?case by simp
next
  case (Cons x xs)
  then show ?case
    by (auto simp: bind_exn_def split: sum.splits)
qed

lemma article_entry_total: "is_article a \<Longrightarrow> \<exists>e. article_entry a = Inr e"
  by (cases a) (auto simp: article_entry_def bind_exn_def split: option.splits pyval.splits)

lemma mapM_article_entry:
  assumes "\<forall>a \<in> set arts. is_article a"
  shows "\<exists>entries. mapM_exn article_entry arts = Inr entries"
  using assms
proof (induction arts)
  case Nil
  then show ?case by simp
next
  case (Cons a arts)
  then obtain e es where "article_entry a = Inr e" "mapM_exn article_entry arts = Inr es"
    using article_entry_total by fastforce
  then show ?case by (simp add: bind_exn_def)
qed

lemma get_forex_news_ok:
  assumes "unpack2 (split_on CHR ''/'' pair) = Inr (b, t)"
    and "http E news_url (news_params E b t) = Inr (Response 200 (Inr (PDict body)))"
    and "map_of body ''articles'' = Some (PList arts)"
    and "mapM_exn article_entry arts = Inr entries"
  shows "get_forex_news E pair = ([HttpGet news_url (news_params E b t)], Inr (PList entries))"
  using assms
  by (simp add: get_forex_news_def requests_get_def bind_io_simps try_except_simps
      return_io_sel)

lemma article_entry_mock: "article_entry (mock_article title) = Inr (mock_entry title)"
  by (simp add: article_entry_def mock_article_def mock_entry_def bind_exn_def)

lemma mapM_mock:
  "mapM_exn article_entry (map mock_article ts) = Inr (map mock_entry ts)"
  by (induction ts) (simp_all add: article_entry_mock bind_exn_def)

lemma mock_news_200:
  "get_forex_news
     (mock_env ra (Inr (Response 200 (Inr mock_news_body))) ca) ''USD/INR'' =
   ([HttpGet news_url
       (news_params (mock_env ra (Inr (Response 200 (Inr mock_news_body))) ca) ''USD'' ''INR'')],
    Inr (PList (map mock_entry [''a1'', ''a2'', ''a3'', ''a4'', ''a5''])))"
proof (rule get_forex_news_ok)
  show "unpack2 (split_on CHR ''/'' ''USD/INR'') = Inr (''USD'', ''INR'')" by simp
  show "http (mock_env ra (Inr (Response 200 (Inr mock_news_body))) ca) news_url
     (news_params (mock_env ra (Inr (Response 200 (Inr mock_news_body))) ca) ''USD'' ''INR'') =
    Inr (Response 200 (Inr (PDict [(''status'', PStr ''ok''),
          (''totalResults'', PInt 5),
          (''articles'', PList (map mock_article [''a1'', ''a2'', ''a3'', ''a4'', ''a5'']))])))"
    by (simp add: mock_env_sel mock_news_body_def news_params_def)
  show "map_of [(''status'', PStr ''ok''),
          (''totalResults'', PInt 5),
          (''articles'', PList (map mock_article [''a1'', ''a2'', ''a3'', ''a4'', ''a5'']))] ''articles''
     = Some (PList (map mock_article [''a1'', ''a2'', ''a3'', ''a4'', ''a5'']))"
    by simp
  show "mapM_exn article_entry (map mock_article [''a1'', ''a2'', ''a3'', ''a4'', ''a5'']) =
     Inr (map mock_entry [''a1'', ''a2'', ''a3'', ''a4'', ''a5''])"
    by (rule mapM_mock)
qed

lemma is_article_mock: "is_article (mock_article t)"
  by (simp add: mock_article_def)

text \<open>
  C1, as the spec states it, fails: the mocked news API answers 200 with five articles,
  and \<open>get_forex_news\<close> returns five entries, not three.
\<close>

theorem get_forex_news_five_counterexample:
  "snd (get_forex_news
          (mock_env (Inl (LibraryError ''down'')) (Inr (Response 200 (Inr mock_news_body)))
             mock_chat_ok)
          ''USD/INR'') =
     Inr (PList [mock_entry ''a1'', mock_entry ''a2'', mock_entry ''a3'', mock_entry ''a4'',
                 mock_entry ''a5''])
   \<and> length [mock_entry ''a1'', mock_entry ''a2'', mock_entry ''a3'', mock_entry ''a4'',
              mock_entry ''a5''] = 5"
  by (simp add: mock_news_200)

text \<open>
  C1, amended: when the news API answers 200 with a body that lists well-formed articles
  (five in the spec's test), \<open>get_forex_news\<close> returns one entry per article, in the
  order of the body: as many entries as articles, neither re-sorted nor truncated. The
  cap of three is only the \<open>pageSize\<close> parameter of the request.
\<close>

theorem get_forex_news_entry_per_article:
  assumes "unpack2 (split_on CHR ''/'' pair) = Inr (b, t)"
    and "http E news_url (news_params E b t) = Inr (Response 200 (Inr (PDict body)))"
    and "map_of body ''articles'' = Some (PList arts)"
    and "\<forall>a \<in> set arts. is_article a"
  shows "\<exists>entries. snd (get_forex_news E pair) = Inr (PList entries)
     \<and> length entries = length arts
     \<and> (\<forall>i < length arts. article_entry (arts ! i) = Inr (entries ! i))
     \<and> fst (get_forex_news E pair) = [HttpGet news_url (news_params E b t)]
     \<and> map_of (news_params E b t) ''pageSize'' = Some (PInt 3)"
proof -
  from mapM_article_entry [OF assms(4)] obtain entries
    where e: "mapM_exn article_entry arts = Inr entries" ..
  then have l: "list_all2 (\<lambda>x y. article_entry x = Inr y) arts entries"
    by (simp add: mapM_exn_Inr)
  have "length entries = length arts"
    using l by (simp add: list_all2_lengthD)
  moreover have "\<forall>i < length arts. article_entry (arts ! i) = Inr (entries ! i)"
    using l by (simp add: list_all2_conv_all_nth)
  moreover have "map_of (news_params E b t) ''pageSize'' = Some (PInt 3)"
    by (simp add: news_params_def)
  ultimately show ?thesis
    using get_forex_news_ok [OF assms(1-3) e] by simp
qed

theorem get_forex_news_entry_per_article_witness:
  "\<exists>entries.
     snd (get_forex_news
            (mock_env (Inl (LibraryError ''down'')) (Inr (Response 200 (Inr mock_news_body)))
               mock_chat_ok)
            ''EUR/JPY'') = Inr (PList entries)
     \<and> length entries = 5"
proof -
  let ?E = "mock_env (Inl (LibraryError ''down'')) (Inr (Response 200 (Inr mock_news_body)))
      mock_chat_ok"
  let ?arts = "map mock_article [''a1'', ''a2'', ''a3'', ''a4'', ''a5'']"
  let ?body = "[(''status'', PStr ''ok''), (''totalResults'', PInt 5),
      (''articles'', PList ?arts)]"
  have 1: "unpack2 (split_on CHR ''/'' ''EUR/JPY'') = Inr (''EUR'', ''JPY'')"
    by simp
  have 2: "http ?E news_url (news_params ?E ''EUR'' ''JPY'') =
      Inr (Response 200 (Inr (PDict ?body)))"
    by (simp add: mock_env_sel mock_news_body_def news_params_def)
  have 3: "map_of ?body ''articles'' = Some (PList ?arts)"
    by simp
  have 4: "\<forall>a \<in> set ?arts. is_article a"
    by (simp add: is_article_mock)
  from get_forex_news_entry_per_article [OF 1 2 3 4] show ?thesis
    by auto
qed

section \<open>What a node adds and what it reads\<close>

lemma run_node_sel:
  "fst (run_node n E s) = fst (n E s)"
  "snd (run_node n E s) = (case snd (n E s) of Inl e \<Rightarrow> Inl e | Inr u \<Rightarrow> Inr (apply_update s u))"
  by (simp_all add: run_node_def fst_bind_io snd_bind_io return_io_sel split: sum.splits)

lemma collect_exchange_rate_update:
  "snd (collect_exchange_rate E s) = Inr u \<Longrightarrow> \<exists>v. u = empty_state\<lparr>exchange_rate_data := Some v\<rparr>"
  by (auto simp: collect_exchange_rate_def snd_bind_io lift_io_sel return_io_sel
      split: sum.splits prod.splits)

lemma collect_news_update:
  "snd (collect_news E s) = Inr u \<Longrightarrow> \<exists>v. u = empty_state\<lparr>news_data := Some v\<rparr>"
  by (auto simp: collect_news_def snd_bind_io lift_io_sel return_io_sel
      split: sum.splits prod.splits)

lemma collect_trends_update:
  "snd (collect_trends E s) = Inr u \<Longrightarrow> \<exists>v. u = empty_state\<lparr>trend_data := Some v\<rparr>"
  by (auto simp: collect_trends_def snd_bind_io lift_io_sel return_io_sel
      split: sum.splits prod.splits)

lemma analyze_data_update:
  "snd (analyze_data E s) = Inr u \<Longrightarrow> \<exists>v. u = empty_state\<lparr>data_analysis := Some v\<rparr>"
  by (auto simp: analyze_data_def snd_bind_io lift_io_sel return_io_sel Let_def
      split: sum.splits prod.splits)

lemma generate_report_update:
  "snd (generate_report E s) = Inr u \<Longrightarrow> \<exists>v. u = empty_state\<lparr>final_report := Some v\<rparr>"
  by (auto simp: generate_report_def snd_bind_io lift_io_sel return_io_sel Let_def
      split: sum.splits prod.splits)

lemma workflow_nth:
  "workflow ! 0 = collect_exchange_rate"
  "workflow ! Suc 0 = collect_news"
  "workflow ! 2 = collect_trends"
  "workflow ! 3 = analyze_data"
  "workflow ! 4 = generate_report"
  by (simp_all add: workflow_def numeral_2_eq_2 numeral_3_eq_3 eval_nat_numeral)

lemma less_5_cases: "i < 5 \<Longrightarrow> i = 0 \<or> i = Suc 0 \<or> i = 2 \<or> i = 3 \<or> i = (4::nat)"
  by arith

lemma node_update_one_field:
  assumes "i < 5" and "snd ((workflow ! i) E s) = Inr u"
  shows "populated u = [state_fields ! Suc i]"
  using less_5_cases [OF assms(1)] assms(2)
    collect_exchange_rate_update [of E s u] collect_news_update [of E s u]
    collect_trends_update [of E s u] analyze_data_update [of E s u]
    generate_report_update [of E s u]
  by (auto simp: workflow_nth populated_def present_def empty_state_def state_fields_def)

lemma node_reads_before:
  assumes "i < 5" and "agree_before i s s'"
  shows "(workflow ! i) E s = (workflow ! i) E s'"
  using less_5_cases [OF assms(1)] assms(2)
  by (auto simp: workflow_nth agree_before_def collect_exchange_rate_def collect_news_def
      collect_trends_def analyze_data_def generate_report_def)

lemma snd_run_nodes_append:
  "snd (run_nodes (xs @ ys) E s) =
     (case snd (run_nodes xs E s) of Inl e \<Rightarrow> Inl e | Inr m \<Rightarrow> snd (run_nodes ys E m))"
proof (induction xs arbitrary: s)
  case Nil
  then show ?case by (simp add: return_io_sel)
next
  case (Cons x xs)
  then show ?case by (simp add: snd_bind_io split: sum.splits)
qed

lemma populated_step:
  assumes "i < 5" and "populated s = take (Suc i) state_fields"
    and "snd (run_node (workflow ! i) E s) = Inr s'"
  shows "populated s' = take (Suc (Suc i)) state_fields"
proof -
  from assms(3) obtain u where u: "snd ((workflow ! i) E s) = Inr u" and s': "s' = apply_update s u"
    by (auto simp: run_node_sel split: sum.splits)
  from less_5_cases [OF assms(1)] show ?thesis
  proof (elim disjE)
    assume i: "i = 0"
    with u obtain v where "u = empty_state\<lparr>exchange_rate_data := Some v\<rparr>"
      using collect_exchange_rate_update [of E s u] by (auto simp: workflow_nth)
    with assms(2) i s' show ?thesis
      by (auto simp: populated_def present_def state_fields_def apply_update_def override_def
          empty_state_def split: option.splits)
  next
    assume i: "i = Suc 0"
    with u obtain v where "u = empty_state\<lparr>news_data := Some v\<rparr>"
      using collect_news_update [of E s u] by (auto simp: workflow_nth)
    with assms(2) i s' show ?thesis
      by (auto simp: populated_def present_def state_fields_def apply_update_def override_def
          empty_state_def split: option.splits)
  next
    assume i: "i = 2"
    with u obtain v where "u = empty_state\<lparr>trend_data := Some v\<rparr>"
      using collect_trends_update [of E s u] by (auto simp: workflow_nth)
    with assms(2) i s' show ?thesis
      by (auto simp: populated_def present_def state_fields_def apply_update_def override_def
          empty_state_def eval_nat_numeral split: option.splits)
  next
    assume i: "i = 3"
    with u obtain v where "u = empty_state\<lparr>data_analysis := Some v\<rparr>"
      using analyze_data_update [of E s u] by (auto simp: workflow_nth)
    with assms(2) i s' show ?thesis
      by (auto simp: populated_def present_def state_fields_def apply_update_def override_def
          empty_state_def eval_nat_numeral split: option.splits)
  next
    assume i: "i = 4"
    with u obtain v where "u = empty_state\<lparr>final_report := Some v\<rparr>"
      using generate_report_update [of E s u] by (auto simp: workflow_nth)
    with assms(2) i s' show ?thesis
      by (auto simp: populated_def present_def state_fields_def apply_update_def override_def
          empty_state_def eval_nat_numeral split: option.splits)
  qed
qed

lemma length_workflow: "length workflow = 5"
  by (simp add: workflow_def)

lemma populated_prefix:
  assumes "k \<le> 5" and "populated s0 = [''currency_pair'']"
    and "snd (run_nodes (take k workflow) E s0) = Inr r"
  shows "populated r = take (Suc k) state_fields"
  using assms(1,3)
proof (induction k arbitrary: r)
  case 0
  with assms(2) show ?case by (simp add: return_io_sel state_fields_def)
next
  case (Suc k)
  have t: "take (Suc k) workflow = take k workflow @ [workflow ! k]"
    using Suc.prems(1) by (simp add: take_Suc_conv_app_nth length_workflow)
  from Suc.prems(2) obtain m where m: "snd (run_nodes (take k workflow) E s0) = Inr m"
    and r: "snd (run_node (workflow ! k) E m) = Inr r"
    by (auto simp: t snd_run_nodes_append snd_bind_io return_io_sel split: sum.splits)
  from Suc.IH [OF _ m] Suc.prems(1) have "populated m = take (Suc k) state_fields" by simp
  with Suc.prems(1) r show ?case by (intro populated_step [of k m]) simp_all
qed

lemma populated_initial: "populated (empty_state\<lparr>currency_pair := Some pair\<rparr>) = [''currency_pair'']"
  by (simp add: populated_def present_def empty_state_def)

section \<open>Runs on the mocked world\<close>

lemma mock_trends:
  "analyze_forex_trends (mock_env ra na ca) ''USD/INR'' = Inr mock_trend_record"
  by (simp add: analyze_forex_trends_def mock_env_sel mock_draws_def bind_exn_def
      random_choice_def random_randint_def mock_volatility str_int_def str_nat.simps
      digit_char_def mock_trend_record_def)

lemma mock_trends_down:
  "analyze_forex_trends (mock_apis_down ca) ''USD/INR'' = Inr mock_trend_record"
  by (simp add: mock_apis_down_def mock_trends)

lemma mock_rate_down:
  "get_exchange_rate (mock_apis_down ca) ''USD'' ''INR'' =
     ([HttpGet (rate_url (mock_apis_down ca) ''USD'' ''INR'') []], Inr (error_record ''down''))"
  using get_exchange_rate_raised
    [of "mock_apis_down ca" "''USD''" "''INR''" "LibraryError ''down''"]
  by (simp add: mock_env_sel mock_apis_down_def)

lemma mock_news_down:
  "get_forex_news (mock_apis_down ca) ''USD/INR'' =
     ([HttpGet news_url (news_params (mock_apis_down ca) ''USD'' ''INR'')],
      Inr (error_record ''down''))"
  using get_forex_news_raised
    [of "''USD/INR''" "''USD''" "''INR''" "mock_apis_down ca" "LibraryError ''down''"]
  by (simp add: mock_env_sel news_params_def mock_apis_down_def)

lemma mock_collect:
  "run_nodes [collect_exchange_rate, collect_news, collect_trends] (mock_apis_down ca)
     (empty_state\<lparr>currency_pair := Some ''USD/INR''\<rparr>) =
   ([HttpGet (rate_url (mock_apis_down ca) ''USD'' ''INR'') [],
     HttpGet news_url (news_params (mock_apis_down ca) ''USD'' ''INR'')],
    Inr mock_collected)"
  by (simp add: run_node_def collect_exchange_rate_def collect_news_def collect_trends_def
      bind_io_simps return_io_sel state_getitem_def empty_state_def mock_rate_down
      mock_news_down mock_trends_down apply_update_def
      override_def mock_collected_def)

lemma run_nodes_append:
  "run_nodes (xs @ ys) E s = bind_io (run_nodes xs E s) (run_nodes ys E)"
proof (induction xs arbitrary: s)
  case Nil
  then show ?case by (simp add: bind_io_simps)
next
  case (Cons x xs)
  then show ?case
    by (simp add: bind_io_def split: prod.splits sum.splits)
qed

lemma workflow_split:
  "workflow = [collect_exchange_rate, collect_news, collect_trends] @ [analyze_data, generate_report]"
  by (simp add: workflow_def)

lemma mock_dumps:
  "json_dumps (mock_apis_down ca) v = ''{}''"
  "date_at_analysis (mock_apis_down ca) = ''November 04, 2026''"
  "date_at_report (mock_apis_down ca) = ''November 04, 2026''"
  "chat (mock_apis_down ca) = ca"
  by (simp_all add: mock_apis_down_def mock_env_sel)

lemma mock_run_chat_down:
  "graph_invoke (mock_apis_down mock_chat_down) (empty_state\<lparr>currency_pair := Some ''USD/INR''\<rparr>) =
   ([HttpGet (rate_url (mock_apis_down mock_chat_down) ''USD'' ''INR'') [],
     HttpGet news_url (news_params (mock_apis_down mock_chat_down) ''USD'' ''INR''),
     ChatCompletion (analysis_request
       (analysis_prompt ''USD/INR'' ''November 04, 2026'' ''{}'' ''{}'' ''{}''))],
    Inl (LibraryError ''Connection error.''))"
  unfolding graph_invoke_def workflow_split run_nodes_append mock_collect
  by (simp add: bind_io_simps run_node_def analyze_data_def mock_collected_def state_getitem_def
      chat_completions_create_def mock_dumps mock_chat_down_def)

section \<open>Model-call errors end the run\<close>

lemma no_chat_in_rate: "ChatCompletion req \<notin> set (fst (get_exchange_rate E b t))"
  using get_exchange_rate_returns [of E b t] by auto

lemma no_chat_in_news: "ChatCompletion req \<notin> set (fst (get_forex_news E pair))"
proof (cases "unpack2 (split_on CHR ''/'' pair)")
  case (Inl e)
  then show ?thesis by (simp add: get_forex_news_unpack_failed)
next
  case (Inr bt)
  then show ?thesis
    using get_forex_news_returns [of pair "fst bt" "snd bt" E] by auto
qed

lemma no_chat_in_collect_exchange_rate:
  "ChatCompletion req \<notin> set (fst (collect_exchange_rate E s))"
  by (auto simp: collect_exchange_rate_def fst_bind_io lift_io_sel return_io_sel no_chat_in_rate
      split: sum.splits prod.splits)

lemma no_chat_in_collect_news:
  "ChatCompletion req \<notin> set (fst (collect_news E s))"
  by (auto simp: collect_news_def fst_bind_io lift_io_sel return_io_sel no_chat_in_news
      split: sum.splits prod.splits)

lemma no_chat_in_collect_trends:
  "ChatCompletion req \<notin> set (fst (collect_trends E s))"
  by (auto simp: collect_trends_def fst_bind_io lift_io_sel return_io_sel
      split: sum.splits prod.splits)

lemma analyze_data_chat_raises:
  assumes "ChatCompletion req \<in> set (fst (analyze_data E s))" and "chat E req = Inl e"
  shows "snd (analyze_data E s) = Inl e"
  using assms
  by (auto simp: analyze_data_def fst_bind_io snd_bind_io lift_io_sel return_io_sel
      chat_create_sel Let_def split: sum.splits)

lemma generate_report_chat_raises:
  assumes "ChatCompletion req \<in> set (fst (generate_report E s))" and "chat E req = Inl e"
  shows "snd (generate_report E s) = Inl e"
  using assms
  by (auto simp: generate_report_def fst_bind_io snd_bind_io lift_io_sel return_io_sel
      chat_create_sel Let_def split: sum.splits)

lemma run_nodes_chat_raises:
  assumes "\<forall>n \<in> set ns. \<forall>s. ChatCompletion req \<in> set (fst (n E s)) \<longrightarrow> snd (n E s) = Inl e"
    and "ChatCompletion req \<in> set (fst (run_nodes ns E s))"
  shows "snd (run_nodes ns E s) = Inl e"
  using assms
proof (induction ns arbitrary: s)
  case Nil
  then show ?case by (simp add: return_io_sel)
next
  case (Cons n ns)
  show ?case
  proof (cases "ChatCompletion req \<in> set (fst (n E s))")
    case True
    with Cons.prems(1) have "snd (n E s) = Inl e" by simp
    then show ?thesis by (simp add: snd_bind_io run_node_sel)
  next
    case False
    with Cons.prems(2) obtain u where u: "snd (n E s) = Inr u"
      and rest: "ChatCompletion req \<in> set (fst (run_nodes ns E (apply_update s u)))"
      by (auto simp: fst_bind_io run_node_sel split: sum.splits)
    from Cons.IH [OF _ rest] Cons.prems(1)
    have "snd (run_nodes ns E (apply_update s u)) = Inl e" by simp
    with u show ?thesis by (simp add: snd_bind_io run_node_sel)
  qed
qed

lemma graph_invoke_chat_raises:
  assumes "ChatCompletion req \<in> set (fst (graph_invoke E s))" and "chat E req = Inl e"
  shows "snd (graph_invoke E s) = Inl e"
  unfolding graph_invoke_def
proof (rule run_nodes_chat_raises)
  show "\<forall>n \<in> set workflow. \<forall>s. ChatCompletion req \<in> set (fst (n E s)) \<longrightarrow> snd (n E s) = Inl e"
    using assms(2)
    by (simp add: workflow_def no_chat_in_collect_exchange_rate no_chat_in_collect_news
        no_chat_in_collect_trends analyze_data_chat_raises generate_report_chat_raises)
  show "ChatCompletion req \<in> set (fst (run_nodes workflow E s))"
    using assms(1) by (simp add: graph_invoke_def)
qed

lemma mock_run_report_down:
  "graph_invoke (mock_apis_down mock_chat_report_down)
     (empty_state\<lparr>currency_pair := Some ''USD/INR''\<rparr>) =
   ([HttpGet (rate_url (mock_apis_down mock_chat_report_down) ''USD'' ''INR'') [],
     HttpGet news_url (news_params (mock_apis_down mock_chat_report_down) ''USD'' ''INR''),
     ChatCompletion (analysis_request
       (analysis_prompt ''USD/INR'' ''November 04, 2026'' ''{}'' ''{}'' ''{}'')),
     ChatCompletion (report_request
       (report_prompt ''USD/INR'' ''November 04, 2026'' ''Analysis.'' ''{}'' ''{}'' ''{}''))],
    Inl (LibraryError ''Connection error.''))"
  unfolding graph_invoke_def workflow_split run_nodes_append mock_collect
  by (simp add: bind_io_simps run_node_def analyze_data_def generate_report_def
      mock_collected_def state_getitem_def chat_completions_create_def mock_dumps
      mock_chat_report_down_def analysis_request_def report_request_def first_content_def
      lift_io_def return_io_def apply_update_def override_def empty_state_def format_value_def)

text \<open>
  C8: a chat-completion call that raises is never caught. If the call made by
  \<open>analyze_data\<close> or by \<open>generate_report\<close> raises \<open>e\<close>, the node raises \<open>e\<close>; and if any
  chat call made during \<open>analyze_currency_pair\<close> raises \<open>e\<close>, the result of
  \<open>analyze_currency_pair\<close> is the exception \<open>e\<close>: no fallback text, no report value.
\<close>

theorem model_errors_abort_run:
  assumes "chat E req = Inl e"
  shows "(ChatCompletion req \<in> set (fst (analyze_data E s)) \<longrightarrow> snd (analyze_data E s) = Inl e)
     \<and> (ChatCompletion req \<in> set (fst (generate_report E s)) \<longrightarrow>
          snd (generate_report E s) = Inl e)
     \<and> (ChatCompletion req \<in> set (fst (analyze_currency_pair E pair)) \<longrightarrow>
          snd (analyze_currency_pair E pair) = Inl e)"
proof (intro conjI impI)
  assume "ChatCompletion req \<in> set (fst (analyze_data E s))"
  with assms show "snd (analyze_data E s) = Inl e" by (rule analyze_data_chat_raises [rotated])
next
  assume "ChatCompletion req \<in> set (fst (generate_report E s))"
  with assms show "snd (generate_report E s) = Inl e"
    by (rule generate_report_chat_raises [rotated])
next
  assume a: "ChatCompletion req \<in> set (fst (analyze_currency_pair E pair))"
  then have slash: "CHR ''/'' \<in> set pair"
    by (auto simp: analyze_currency_pair_def return_io_sel split: if_splits)
  with a have "ChatCompletion req \<in> set (fst (graph_invoke E (empty_state\<lparr>currency_pair := Some pair\<rparr>)))"
    by (auto simp: analyze_currency_pair_def fst_bind_io lift_io_sel Let_def split: sum.splits)
  then have "snd (graph_invoke E (empty_state\<lparr>currency_pair := Some pair\<rparr>)) = Inl e"
    using assms by (rule graph_invoke_chat_raises)
  with slash show "snd (analyze_currency_pair E pair) = Inl e"
    by (simp add: analyze_currency_pair_def snd_bind_io Let_def)
qed

theorem model_errors_abort_run_witness:
  "chat (mock_apis_down mock_chat_down)
     (analysis_request (analysis_prompt ''USD/INR'' ''November 04, 2026'' ''{}'' ''{}'' ''{}'')) =
     Inl (LibraryError ''Connection error.'')
   \<and> ChatCompletion
       (analysis_request (analysis_prompt ''USD/INR'' ''November 04, 2026'' ''{}'' ''{}'' ''{}''))
     \<in> set (fst (analyze_currency_pair (mock_apis_down mock_chat_down) ''USD/INR''))
   \<and> snd (analyze_currency_pair (mock_apis_down mock_chat_down) ''USD/INR'') =
     Inl (LibraryError ''Connection error.'')
   \<and> chat (mock_apis_down mock_chat_report_down)
     (report_request
        (report_prompt ''USD/INR'' ''November 04, 2026'' ''Analysis.'' ''{}'' ''{}'' ''{}'')) =
     Inl (LibraryError ''Connection error.'')
   \<and> ChatCompletion
       (report_request
          (report_prompt ''USD/INR'' ''November 04, 2026'' ''Analysis.'' ''{}'' ''{}'' ''{}''))
     \<in> set (fst (analyze_currency_pair (mock_apis_down mock_chat_report_down) ''USD/INR''))
   \<and> snd (analyze_currency_pair (mock_apis_down mock_chat_report_down) ''USD/INR'') =
     Inl (LibraryError ''Connection error.'')"
proof -
  let ?A = "analysis_request
      (analysis_prompt ''USD/INR'' ''November 04, 2026'' ''{}'' ''{}'' ''{}'')"
  let ?R = "report_request
      (report_prompt ''USD/INR'' ''November 04, 2026'' ''Analysis.'' ''{}'' ''{}'' ''{}'')"
  have a1: "chat (mock_apis_down mock_chat_down) ?A = Inl (LibraryError ''Connection error.'')"
    by (simp add: mock_dumps mock_chat_down_def)
  have a2: "ChatCompletion ?A
      \<in> set (fst (analyze_currency_pair (mock_apis_down mock_chat_down) ''USD/INR''))"
    by (simp add: analyze_currency_pair_def mock_run_chat_down bind_io_simps)
  have r1: "chat (mock_apis_down mock_chat_report_down) ?R =
      Inl (LibraryError ''Connection error.'')"
    by (simp add: mock_dumps mock_chat_report_down_def report_request_def)
  have r2: "ChatCompletion ?R
      \<in> set (fst (analyze_currency_pair (mock_apis_down mock_chat_report_down) ''USD/INR''))"
    by (simp add: analyze_currency_pair_def mock_run_report_down bind_io_simps)
  from model_errors_abort_run [OF a1, of mock_collected "''USD/INR''"]
    model_errors_abort_run [OF r1, of mock_collected "''USD/INR''"] a1 a2 r1 r2
  show ?thesis by simp
qed

section \<open>The state is filled in pipeline order\<close>

lemma mock_run_ok:
  "graph_invoke (mock_apis_down mock_chat_ok) (empty_state\<lparr>currency_pair := Some ''USD/INR''\<rparr>) =
   ([HttpGet (rate_url (mock_apis_down mock_chat_ok) ''USD'' ''INR'') [],
     HttpGet news_url (news_params (mock_apis_down mock_chat_ok) ''USD'' ''INR''),
     ChatCompletion (analysis_request
       (analysis_prompt ''USD/INR'' ''November 04, 2026'' ''{}'' ''{}'' ''{}'')),
     ChatCompletion (report_request
       (report_prompt ''USD/INR'' ''November 04, 2026'' ''# Report'' ''{}'' ''{}'' ''{}''))],
    Inr mock_final)"
  unfolding graph_invoke_def workflow_split run_nodes_append mock_collect
  by (simp add: bind_io_simps run_node_def analyze_data_def generate_report_def
      mock_collected_def state_getitem_def chat_completions_create_def mock_dumps
      mock_chat_ok_def first_content_def mock_final_def
      lift_io_def return_io_def apply_update_def override_def empty_state_def format_value_def)

text \<open>
  C9: node \<open>i\<close> of the workflow returns an update with exactly one field, the one after
  the first \<open>i + 1\<close> fields of the state; its result depends only on the fields
  produced before it; after the first \<open>k\<close> nodes of a run the populated fields are
  exactly the first \<open>k + 1\<close> fields, in pipeline order; and a run that succeeds ends
  with all six fields populated.
\<close>

theorem pipeline_fields_in_order:
  "(i < 5 \<and> snd ((workflow ! i) E s) = Inr u \<longrightarrow> populated u = [state_fields ! Suc i])
   \<and> (i < 5 \<and> agree_before i s s' \<longrightarrow> (workflow ! i) E s = (workflow ! i) E s')
   \<and> (k \<le> 5 \<and> snd (run_nodes (take k workflow) E (empty_state\<lparr>currency_pair := Some pair\<rparr>)) = Inr r
        \<longrightarrow> populated r = take (Suc k) state_fields)
   \<and> (snd (graph_invoke E (empty_state\<lparr>currency_pair := Some pair\<rparr>)) = Inr final
        \<longrightarrow> populated final = state_fields)"
proof (intro conjI impI)
  assume "i < 5 \<and> snd ((workflow ! i) E s) = Inr u"
  then show "populated u = [state_fields ! Suc i]"
    using node_update_one_field by blast
next
  assume "i < 5 \<and> agree_before i s s'"
  then show "(workflow ! i) E s = (workflow ! i) E s'"
    using node_reads_before by blast
next
  assume "k \<le> 5 \<and> snd (run_nodes (take k workflow) E (empty_state\<lparr>currency_pair := Some pair\<rparr>)) = Inr r"
  then show "populated r = take (Suc k) state_fields"
    using populated_prefix [OF _ populated_initial] by blast
next
  assume "snd (graph_invoke E (empty_state\<lparr>currency_pair := Some pair\<rparr>)) = Inr final"
  then have "snd (run_nodes (take 5 workflow) E (empty_state\<lparr>currency_pair := Some pair\<rparr>)) = Inr final"
    by (simp add: graph_invoke_def length_workflow)
  from populated_prefix [OF _ populated_initial this]
  show "populated final = state_fields"
    by (simp add: state_fields_def)
qed

theorem pipeline_fields_in_order_witness:
  "snd ((workflow ! 3) (mock_apis_down mock_chat_ok) mock_collected) =
     Inr (empty_state\<lparr>data_analysis := Some (PStr ''# Report'')\<rparr>)
   \<and> populated (empty_state\<lparr>data_analysis := Some (PStr ''# Report'')\<rparr>) = [''data_analysis'']
   \<and> agree_before 3 mock_collected (mock_collected\<lparr>final_report := Some PNone\<rparr>)
   \<and> (workflow ! 3) (mock_apis_down mock_chat_ok) mock_collected =
      (workflow ! 3) (mock_apis_down mock_chat_ok) (mock_collected\<lparr>final_report := Some PNone\<rparr>)
   \<and> snd (run_nodes (take 3 workflow) (mock_apis_down mock_chat_ok)
           (empty_state\<lparr>currency_pair := Some ''USD/INR''\<rparr>)) = Inr mock_collected
   \<and> populated mock_collected =
       [''currency_pair'', ''exchange_rate_data'', ''news_data'', ''trend_data'']
   \<and> snd (graph_invoke (mock_apis_down mock_chat_ok)
           (empty_state\<lparr>currency_pair := Some ''USD/INR''\<rparr>)) = Inr mock_final
   \<and> populated mock_final =
       [''currency_pair'', ''exchange_rate_data'', ''news_data'', ''trend_data'',
        ''data_analysis'', ''final_report'']"
proof -
  let ?E = "mock_apis_down mock_chat_ok"
  let ?u = "empty_state\<lparr>data_analysis := Some (PStr ''# Report'')\<rparr>"
  let ?s' = "mock_collected\<lparr>final_report := Some PNone\<rparr>"
  let ?init = "empty_state\<lparr>currency_pair := Some ''USD/INR''\<rparr>"
  have n: "snd ((workflow ! 3) ?E mock_collected) = Inr ?u"
    by (simp add: workflow_nth analyze_data_def bind_io_simps mock_collected_def
        state_getitem_def chat_completions_create_def mock_dumps mock_chat_ok_def
        first_content_def lift_io_def return_io_def)
  have a: "agree_before 3 mock_collected ?s'"
    by (simp add: agree_before_def)
  have t: "take 3 workflow = [collect_exchange_rate, collect_news, collect_trends]"
    by (simp add: workflow_def)
  have p: "snd (run_nodes (take 3 workflow) ?E ?init) = Inr mock_collected"
    unfolding t mock_collect by simp
  have f: "snd (graph_invoke ?E ?init) = Inr mock_final"
    by (simp add: mock_run_ok)
  from pipeline_fields_in_order [of 3 ?E mock_collected ?u ?s' 3 "''USD/INR''" mock_collected mock_final]
    n a p f
  show ?thesis
    by (simp add: state_fields_def)
qed

section \<open>Fetch failures are data\<close>

lemma news_call_made:
  assumes "HttpGet url params \<in> set (fst (get_forex_news E pair))"
  shows "\<exists>b t. unpack2 (split_on CHR ''/'' pair) = Inr (b, t)
           \<and> url = news_url \<and> params = news_params E b t"
proof (cases "unpack2 (split_on CHR ''/'' pair)")
  case (Inl e)
  with assms show ?thesis by (simp add: get_forex_news_unpack_failed)
next
  case (Inr bt)
  obtain b t where bt: "bt = (b, t)" by (cases bt)
  with Inr get_forex_news_returns [of pair b t E] assms show ?thesis by auto
qed

lemma collectors_complete:
  assumes "unpack2 (split_on CHR ''/'' pair) = Inr (b, t)" and "draws_ok (rnd E)"
  shows "\<exists>s. snd (run_nodes [collect_exchange_rate, collect_news, collect_trends] E
                 (empty_state\<lparr>currency_pair := Some pair\<rparr>)) = Inr s
           \<and> (\<forall>v. snd (get_exchange_rate E b t) = Inr v \<longrightarrow> exchange_rate_data s = Some v)
           \<and> (\<forall>v. snd (get_forex_news E pair) = Inr v \<longrightarrow> news_data s = Some v)
           \<and> populated s =
               [''currency_pair'', ''exchange_rate_data'', ''news_data'', ''trend_data'']"
proof -
  obtain tr1 v1 where r: "get_exchange_rate E b t = (tr1, Inr v1)"
    using get_exchange_rate_returns by blast
  obtain tr2 v2 where n: "get_forex_news E pair = (tr2, Inr v2)"
    using get_forex_news_returns [OF assms(1)] by blast
  obtain v3 where t: "analyze_forex_trends E pair = Inr v3"
    using analyze_forex_trends_returns [OF assms] by blast
  show ?thesis
    using assms(1) r n t
    by (simp add: run_node_def collect_exchange_rate_def collect_news_def collect_trends_def
        bind_io_simps return_io_sel state_getitem_def empty_state_def apply_update_def
        override_def populated_def present_def)
qed

text \<open>
  C7: whatever the outside call does (any status code, any exception), \<open>get_exchange_rate\<close>
  returns a value and raises nothing, and so does \<open>get_forex_news\<close> whenever it makes its
  call; when the call raised or the status is not 200, the value is a record with status
  \<open>error\<close> and a message string. So for a pair that splits in two the three collecting
  nodes always complete, and the state handed to \<open>analyze_data\<close> holds whatever the two
  fetchers returned, error records included.
\<close>

theorem fetch_failures_are_records:
  "(\<exists>v. snd (get_exchange_rate E base target) = Inr v
       \<and> (fetch_failed (http E (rate_url E base target) []) \<longrightarrow>
            (\<exists>msg. v = PDict [(''status'', PStr ''error''), (''message'', PStr msg)])))
   \<and> (\<forall>url params. HttpGet url params \<in> set (fst (get_forex_news E pair)) \<longrightarrow>
        (\<exists>v. snd (get_forex_news E pair) = Inr v
           \<and> (fetch_failed (http E url params) \<longrightarrow>
                (\<exists>msg. v = PDict [(''status'', PStr ''error''), (''message'', PStr msg)]))))
   \<and> (unpack2 (split_on CHR ''/'' pair) = Inr (b, t) \<and> draws_ok (rnd E) \<longrightarrow>
        (\<exists>s. snd (run_nodes [collect_exchange_rate, collect_news, collect_trends] E
                  (empty_state\<lparr>currency_pair := Some pair\<rparr>)) = Inr s
           \<and> (\<forall>v. snd (get_exchange_rate E b t) = Inr v \<longrightarrow> exchange_rate_data s = Some v)
           \<and> (\<forall>v. snd (get_forex_news E pair) = Inr v \<longrightarrow> news_data s = Some v)
           \<and> populated s =
               [''currency_pair'', ''exchange_rate_data'', ''news_data'', ''trend_data'']))"
proof (intro conjI allI impI)
  show "\<exists>v. snd (get_exchange_rate E base target) = Inr v
       \<and> (fetch_failed (http E (rate_url E base target) []) \<longrightarrow>
            (\<exists>msg. v = PDict [(''status'', PStr ''error''), (''message'', PStr msg)]))"
  proof (cases "http E (rate_url E base target) []")
    case (Inl e)
    then show ?thesis by (simp add: get_exchange_rate_raised error_record_def)
  next
    case (Inr r)
    show ?thesis
    proof (cases "status_code r = 200")
      case False
      with Inr show ?thesis by (simp add: get_exchange_rate_status error_record_def)
    next
      case True
      with Inr get_exchange_rate_returns [of E base target] show ?thesis
        by (auto simp: fetch_failed_def)
    qed
  qed
next
  fix url params
  assume "HttpGet url params \<in> set (fst (get_forex_news E pair))"
  then obtain b t where u: "unpack2 (split_on CHR ''/'' pair) = Inr (b, t)"
    and url: "url = news_url" "params = news_params E b t"
    using news_call_made by blast
  show "\<exists>v. snd (get_forex_news E pair) = Inr v
       \<and> (fetch_failed (http E url params) \<longrightarrow>
            (\<exists>msg. v = PDict [(''status'', PStr ''error''), (''message'', PStr msg)]))"
  proof (cases "http E news_url (news_params E b t)")
    case (Inl e)
    with u url show ?thesis by (simp add: get_forex_news_raised error_record_def)
  next
    case (Inr r)
    show ?thesis
    proof (cases "status_code r = 200")
      case False
      with u url Inr show ?thesis by (simp add: get_forex_news_status error_record_def)
    next
      case True
      with u url Inr get_forex_news_returns [OF u, of E] show ?thesis
        by (auto simp: fetch_failed_def)
    qed
  qed
next
  assume "unpack2 (split_on CHR ''/'' pair) = Inr (b, t) \<and> draws_ok (rnd E)"
  then show "\<exists>s. snd (run_nodes [collect_exchange_rate, collect_news, collect_trends] E
                  (empty_state\<lparr>currency_pair := Some pair\<rparr>)) = Inr s
           \<and> (\<forall>v. snd (get_exchange_rate E b t) = Inr v \<longrightarrow> exchange_rate_data s = Some v)
           \<and> (\<forall>v. snd (get_forex_news E pair) = Inr v \<longrightarrow> news_data s = Some v)
           \<and> populated s =
               [''currency_pair'', ''exchange_rate_data'', ''news_data'', ''trend_data'']"
    using collectors_complete by blast
qed

theorem fetch_failures_are_records_witness:
  "snd (get_exchange_rate (mock_apis_down mock_chat_ok) ''USD'' ''INR'') =
     Inr (PDict [(''status'', PStr ''error''), (''message'', PStr ''down'')])
   \<and> fst (get_forex_news (mock_apis_down mock_chat_ok) ''USD/INR'') =
     [HttpGet ''https://newsapi.org/v2/everything''
        [(''q'', PStr ''forex USD INR exchange rate''),
         (''sortBy'', PStr ''publishedAt''),
         (''language'', PStr ''en''),
         (''pageSize'', PInt 3),
         (''apiKey'', PStr '''')]]
   \<and> fetch_failed (http (mock_apis_down mock_chat_ok) ''https://newsapi.org/v2/everything''
        [(''q'', PStr ''forex USD INR exchange rate''),
         (''sortBy'', PStr ''publishedAt''),
         (''language'', PStr ''en''),
         (''pageSize'', PInt 3),
         (''apiKey'', PStr '''')])
   \<and> snd (get_forex_news (mock_apis_down mock_chat_ok) ''USD/INR'') =
     Inr (PDict [(''status'', PStr ''error''), (''message'', PStr ''down'')])
   \<and> unpack2 (split_on CHR ''/'' ''USD/INR'') = Inr (''USD'', ''INR'')
   \<and> draws_ok (rnd (mock_apis_down mock_chat_ok))
   \<and> snd (run_nodes [collect_exchange_rate, collect_news, collect_trends]
          (mock_apis_down mock_chat_ok) (empty_state\<lparr>currency_pair := Some ''USD/INR''\<rparr>)) =
     Inr mock_collected
   \<and> exchange_rate_data mock_collected =
     Some (PDict [(''status'', PStr ''error''), (''message'', PStr ''down'')])"
proof -
  let ?E = "mock_apis_down mock_chat_ok"
  let ?params = "[(''q'', PStr ''forex USD INR exchange rate''),
         (''sortBy'', PStr ''publishedAt''),
         (''language'', PStr ''en''),
         (''pageSize'', PInt 3),
         (''apiKey'', PStr '''')]"
  have p: "news_params ?E ''USD'' ''INR'' = ?params"
    by (simp add: news_params_def os_getenv_def mock_env_sel mock_apis_down_def)
  have f: "fetch_failed (http ?E ''https://newsapi.org/v2/everything'' ?params)"
    by (simp add: fetch_failed_def mock_env_sel mock_apis_down_def)
  have u: "unpack2 (split_on CHR ''/'' ''USD/INR'') = Inr (''USD'', ''INR'')"
    by simp
  have d: "draws_ok (rnd ?E)"
    by (simp add: mock_env_sel mock_apis_down_def mock_draws_def draws_ok_def)
  have c: "snd (run_nodes [collect_exchange_rate, collect_news, collect_trends] ?E
      (empty_state\<lparr>currency_pair := Some ''USD/INR''\<rparr>)) = Inr mock_collected"
    unfolding mock_collect by simp
  from fetch_failures_are_records [of ?E "''USD''" "''INR''" "''USD/INR''" "''USD''" "''INR''"]
    f u d c
  show ?thesis
    by (simp add: mock_rate_down mock_news_down p news_url_def error_record_def
        mock_collected_def)
qed

section \<open>The trend stage in the graph\<close>






end
